theory Spec2Isabelle
  imports Main "HOL-Library.Word" "HOL-Library.Sublist"
begin

unbundle bit_operations_syntax

section \<open>Python values handled by the export script\<close>

text \<open>
  The script \<^verbatim>\<open>converter_scripts/convert_db_to_iath.py\<close> works on what
  \<^verbatim>\<open>response.json()\<close> returns: \<^verbatim>\<open>None\<close>, booleans, unbounded integers,
  floats, strings, lists and dictionaries with string keys. A float is kept as its
  IEEE-754 binary64 bit pattern; a string as the list of its characters; a dictionary
  as its items in insertion order (the keys of a parsed JSON object are distinct).
\<close>

type_synonym byte = "8 word"
type_synonym f64 = "64 word"

datatype pyval =
    PNone
  | PBool bool
  | PInt int
  | PFloat f64
  | PStr string
  | PList "pyval list"
  | PDict "(string \<times> pyval) list"

text \<open>
  The exceptions that can end a run: the three the script's own operations raise, and
  \<open>EncoderError\<close> for whatever the imported encoder raises.
\<close>

datatype pyerr = AttributeError | TypeError | ValueError | EncoderError

text \<open>The float literals of the script: \<^verbatim>\<open>0.0\<close> and \<^verbatim>\<open>0.5\<close>.\<close>

definition f64_zero :: f64 where
  "f64_zero = 0"

definition f64_half :: f64 where
  "f64_half = 0x3FE0000000000000"

text \<open>\<^verbatim>\<open>d.get(key, default)\<close> on a dictionary: it never raises.\<close>

definition dict_get :: "(string \<rightharpoonup> pyval) \<Rightarrow> string \<Rightarrow> pyval \<Rightarrow> pyval" where
  "dict_get d k dflt = (case d k of None \<Rightarrow> dflt | Some v \<Rightarrow> v)"

text \<open>
  The replacement field \<^verbatim>\<open>{content_text}\<close> of an f-string is \<^verbatim>\<open>format(v, '')\<close>,
  which is \<^verbatim>\<open>str(v)\<close> for the values at hand: a string is itself, \<^verbatim>\<open>None\<close>
  and the booleans print their names, an integer prints in decimal. CPython (3.11 and
  later, with its default setting) refuses to print an integer of more than
  \<^verbatim>\<open>sys.int_max_str_digits\<close> = 4300 decimal digits: \<^verbatim>\<open>str\<close> raises
  \<^verbatim>\<open>ValueError\<close>. The text of a float, a list or a dictionary is Python's built-in
  \<^verbatim>\<open>repr\<close>, which is not part of the script. That of a float always exists: it is
  the parameter \<open>repr_float\<close>. That of a list or a dictionary may raise (it prints
  the integers inside): it is the parameter \<open>repr_other\<close>.
\<close>

definition int_max_str_digits :: nat where
  "int_max_str_digits = 4300"

definition digit_char :: "nat \<Rightarrow> char" where
  "digit_char n = ''0123456789'' ! n"

fun dec_digits :: "nat \<Rightarrow> string" where
  "dec_digits n =
     (if n < 10 then [digit_char n] else dec_digits (n div 10) @ [digit_char (n mod 10)])"

declare dec_digits.simps [simp del]

definition py_int_str :: "int \<Rightarrow> string" where
  "py_int_str i = (if i < 0 then CHR ''-'' # dec_digits (nat (- i)) else dec_digits (nat i))"

fun py_format ::
    "(f64 \<Rightarrow> string) \<Rightarrow> (pyval \<Rightarrow> pyerr + string) \<Rightarrow> pyval \<Rightarrow> pyerr + string" where
  "py_format repr_float repr_other (PStr s) = Inr s"
| "py_format repr_float repr_other PNone = Inr ''None''"
| "py_format repr_float repr_other (PBool b) = Inr (if b then ''True'' else ''False'')"
| "py_format repr_float repr_other (PInt i) =
     (if 10 ^ int_max_str_digits \<le> \<bar>i\<bar> then Inl ValueError else Inr (py_int_str i))"
| "py_format repr_float repr_other (PFloat w) = Inr (repr_float w)"
| "py_format repr_float repr_other v = repr_other v"

section \<open>The Record Normalizer\<close>

text \<open>
  \<^verbatim>\<open>convert_d1_to_iath_v1_compatible(d1_tile: dict) -> dict\<close>, lines 8 to 47. The
  result is the nested dictionary literal of lines 20 to 47, its items in the order they
  are written, unless the f-string of line 39 raises. The argument \<open>now\<close> is the value
  of \<^verbatim>\<open>datetime.now().isoformat()\<close> at the call. \<^verbatim>\<open>author_mark_str\<close> (line 18)
  is read and never used.
\<close>

definition convert_d1_to_iath_v1_compatible ::
    "(f64 \<Rightarrow> string) \<Rightarrow> (pyval \<Rightarrow> pyerr + string) \<Rightarrow> string \<Rightarrow> (string \<rightharpoonup> pyval) \<Rightarrow>
       pyerr + pyval" where
  "convert_d1_to_iath_v1_compatible repr_float repr_other now d1_tile =
     (let knowledge_id = dict_get d1_tile ''id'' PNone;
          content_text = dict_get d1_tile ''content'' (PStr '''')
      in case py_format repr_float repr_other content_text of
           Inl e \<Rightarrow> Inl e
         | Inr formatted \<Rightarrow>
             Inr (PDict [
               (''metadata'', PDict [
                  (''knowledge_id'', knowledge_id),
                  (''topic'', dict_get d1_tile ''topic'' (PStr ''Untitled Topic'')),
                  (''created_at'', dict_get d1_tile ''created_at'' (PStr now))]),
               (''coordinates'', PDict [
                  (''medical_space'', PList [
                     dict_get d1_tile ''coordinates_x'' (PFloat f64_zero),
                     dict_get d1_tile ''coordinates_y'' (PFloat f64_zero),
                     dict_get d1_tile ''coordinates_z'' (PFloat f64_zero)]),
                  (''meta_space'', PList [PFloat f64_zero, PFloat f64_zero, PFloat f64_zero])]),
               (''content'', PDict [
                  (''thinking_process'', PStr (''[Auto-imported]'' @ [CHR 0x0A] @ formatted)),
                  (''final_response'', content_text)]),
               (''verification'', PDict [
                  (''status'',
                     dict_get d1_tile ''verification_status'' (PStr ''pending_review'')),
                  (''initial_certainty'', PFloat f64_half),
                  (''reviewers'', PList [])])]))"

text \<open>
  The call as \<^verbatim>\<open>main\<close> makes it, on whatever the list holds: the first
  \<^verbatim>\<open>d1_tile.get\<close> raises \<^verbatim>\<open>AttributeError\<close> unless the argument is a dictionary.
\<close>

fun call_convert ::
    "(f64 \<Rightarrow> string) \<Rightarrow> (pyval \<Rightarrow> pyerr + string) \<Rightarrow> string \<Rightarrow> pyval \<Rightarrow> pyerr + pyval" where
  "call_convert repr_float repr_other now (PDict kvs) =
     convert_d1_to_iath_v1_compatible repr_float repr_other now (map_of kvs)"
| "call_convert repr_float repr_other now v = Inl AttributeError"

text \<open>
  A value the f-string of line 39 prints without raising: anything but an integer of
  more than 4300 digits, and a list or a dictionary only if its \<^verbatim>\<open>repr\<close> does not
  raise.
\<close>

fun prints :: "(pyval \<Rightarrow> pyerr + string) \<Rightarrow> pyval \<Rightarrow> bool" where
  "prints repr_other (PInt i) = (\<bar>i\<bar> < 10 ^ int_max_str_digits)"
| "prints repr_other (PList xs) = (case repr_other (PList xs) of Inl e \<Rightarrow> False | Inr s \<Rightarrow> True)"
| "prints repr_other (PDict kvs) = (case repr_other (PDict kvs) of Inl e \<Rightarrow> False | Inr s \<Rightarrow> True)"
| "prints repr_other v = True"

text \<open>
  Reading a normalized record: \<^verbatim>\<open>rec[section][key]\<close>, with \<open>None\<close> where Python
  raises (no such key, or not a dictionary). \<open>keys\<close> lists a dictionary's keys.
\<close>

fun subscript :: "pyval \<Rightarrow> string \<Rightarrow> pyval option" where
  "subscript (PDict kvs) k = map_of kvs k"
| "subscript v k = None"

definition field :: "pyval \<Rightarrow> string \<Rightarrow> string \<Rightarrow> pyval option" where
  "field rec section key =
     (case subscript rec section of None \<Rightarrow> None | Some s \<Rightarrow> subscript s key)"

text \<open>
  Reading a field of what the normalizer returned: \<open>None\<close> too when it raised and
  returned nothing.
\<close>

definition result_field :: "pyerr + pyval \<Rightarrow> string \<Rightarrow> string \<Rightarrow> pyval option" where
  "result_field r section key = (case r of Inl e \<Rightarrow> None | Inr rec \<Rightarrow> field rec section key)"

fun keys :: "pyval \<Rightarrow> string list option" where
  "keys (PDict kvs) = Some (map fst kvs)"
| "keys v = None"

text \<open>A text that is not empty: what the codec expects of an identifier and of a topic.\<close>

fun nonempty_text :: "pyval \<Rightarrow> bool" where
  "nonempty_text (PStr s) = (s \<noteq> [])"
| "nonempty_text v = False"

section \<open>The script's entry point\<close>

text \<open>
  What \<^verbatim>\<open>main\<close> does to the world is kept as a trace of events, in the order of
  the statements that cause them. A \<^verbatim>\<open>print\<close> is recorded by the message it
  prints, not by its text.
\<close>

datatype message =
    MsgExporting
  | MsgFetchFailed
  | MsgNotJson
  | MsgResponseText
  | MsgCounts nat nat
  | MsgNoTiles
  | MsgExported
  | MsgFileSize nat

datatype event =
    Print message
  | HttpGet string
  | NewEncoder
  | EncodeBatch "pyval list" nat
  | OpenWrite string
  | WriteBytes "byte list"

text \<open>
  The outcome of lines 56 to 66: the first handler runs (a
  \<^verbatim>\<open>RequestException\<close>), the second handler runs (a \<^verbatim>\<open>json.JSONDecodeError\<close>),
  \<^verbatim>\<open>response.json()\<close> raises what neither handler catches (the \<^verbatim>\<open>ValueError\<close>
  of an integer literal of more than 4300 digits), or \<^verbatim>\<open>exported_data\<close> is the
  parsed document.
\<close>

datatype fetch_result = RequestFailed | InvalidJson | JsonRaised | Fetched pyval

definition BACKEND_API_URL :: string where
  "BACKEND_API_URL = ''https://dendritic-memory-backend.nullai-db-app-face.workers.dev''"

definition EXPORT_ENDPOINT :: string where
  "EXPORT_ENDPOINT = ''/api/db/export''"

definition OUTPUT_FILENAME :: string where
  "OUTPUT_FILENAME = ''exported_db.iath''"

text \<open>
  \<^verbatim>\<open>x.get(key, default)\<close> where \<open>x\<close> is any parsed JSON value: only a dictionary
  has the method.
\<close>

fun py_get :: "pyval \<Rightarrow> string \<Rightarrow> pyval \<Rightarrow> pyerr + pyval" where
  "py_get (PDict kvs) k dflt = Inr (dict_get (map_of kvs) k dflt)"
| "py_get v k dflt = Inl AttributeError"

text \<open>\<^verbatim>\<open>len(x)\<close>: lists, strings and dictionaries have a length.\<close>

fun py_len :: "pyval \<Rightarrow> pyerr + nat" where
  "py_len (PList xs) = Inr (length xs)"
| "py_len (PStr s) = Inr (length s)"
| "py_len (PDict kvs) = Inr (length kvs)"
| "py_len v = Inl TypeError"

text \<open>The truth value \<^verbatim>\<open>if not x\<close> tests.\<close>

fun py_truthy :: "pyval \<Rightarrow> bool" where
  "py_truthy PNone = False"
| "py_truthy (PBool b) = b"
| "py_truthy (PInt i) = (i \<noteq> 0)"
| "py_truthy (PFloat w) = (w \<noteq> 0 \<and> w \<noteq> 0x8000000000000000)"
| "py_truthy (PStr s) = (s \<noteq> [])"
| "py_truthy (PList xs) = (xs \<noteq> [])"
| "py_truthy (PDict kvs) = (kvs \<noteq> [])"

text \<open>
  What \<^verbatim>\<open>for tile in x\<close> iterates over: the elements of a list, the characters
  of a string, the keys of a dictionary.
\<close>

fun py_iter :: "pyval \<Rightarrow> pyerr + pyval list" where
  "py_iter (PList xs) = Inr xs"
| "py_iter (PStr s) = Inr (map (\<lambda>c. PStr [c]) s)"
| "py_iter (PDict kvs) = Inr (map (\<lambda>kv. PStr (fst kv)) kvs)"
| "py_iter v = Inl TypeError"

text \<open>
  A row the normalizer surely accepts: a dictionary whose \<^verbatim>\<open>content\<close> is missing or
  prints without raising.
\<close>

fun accepted_row :: "(pyval \<Rightarrow> pyerr + string) \<Rightarrow> pyval \<Rightarrow> bool" where
  "accepted_row repr_other (PDict kvs) =
     (case map_of kvs ''content'' of None \<Rightarrow> True | Some v \<Rightarrow> prints repr_other v)"
| "accepted_row repr_other v = False"

text \<open>
  The list comprehension of line 79. The \<open>i\<close>-th call reads the clock on its own:
  \<open>nows i\<close> is the timestamp it gets. The first call that raises ends the
  comprehension.
\<close>

fun convert_all ::
    "(f64 \<Rightarrow> string) \<Rightarrow> (pyval \<Rightarrow> pyerr + string) \<Rightarrow> (nat \<Rightarrow> string) \<Rightarrow> nat \<Rightarrow> pyval list \<Rightarrow>
       pyerr + pyval list" where
  "convert_all repr_float repr_other nows i [] = Inr []"
| "convert_all repr_float repr_other nows i (tile # rest) =
     (case call_convert repr_float repr_other (nows i) tile of
        Inl e \<Rightarrow> Inl e
      | Inr t \<Rightarrow>
          (case convert_all repr_float repr_other nows (Suc i) rest of
             Inl e \<Rightarrow> Inl e
           | Inr ts \<Rightarrow> Inr (t # ts)))"

text \<open>
  \<^verbatim>\<open>main()\<close>, lines 49 to 89. \<open>encode_batch\<close> is
  \<^verbatim>\<open>IathEncoder().encode_batch\<close> of the imported module \<^verbatim>\<open>iath_encoder\<close>: it
  returns the bytes or raises. The result is the trace and the exception that ended
  the run, if one did.
\<close>

definition main ::
    "(pyval list \<Rightarrow> nat \<Rightarrow> pyerr + byte list) \<Rightarrow> (f64 \<Rightarrow> string) \<Rightarrow> (pyval \<Rightarrow> pyerr + string) \<Rightarrow>
       (nat \<Rightarrow> string) \<Rightarrow> fetch_result \<Rightarrow> event list \<times> pyerr option" where
  "main encode_batch repr_float repr_other nows fetched =
     (let tr0 = [Print MsgExporting, HttpGet (BACKEND_API_URL @ EXPORT_ENDPOINT)] in
      case fetched of
        RequestFailed \<Rightarrow> (tr0 @ [Print MsgFetchFailed], None)
      | InvalidJson \<Rightarrow> (tr0 @ [Print MsgNotJson, Print MsgResponseText], None)
      | JsonRaised \<Rightarrow> (tr0, Some ValueError)
      | Fetched exported_data \<Rightarrow>
          (case py_get exported_data ''knowledge_tiles'' (PList []) of
             Inl e \<Rightarrow> (tr0, Some e)
           | Inr knowledge_tiles_d1 \<Rightarrow>
          (case py_get exported_data ''users'' (PList []) of
             Inl e \<Rightarrow> (tr0, Some e)
           | Inr users_d1 \<Rightarrow>
          (case py_len knowledge_tiles_d1 of
             Inl e \<Rightarrow> (tr0, Some e)
           | Inr n_tiles \<Rightarrow>
          (case py_len users_d1 of
             Inl e \<Rightarrow> (tr0, Some e)
           | Inr n_users \<Rightarrow>
          (let tr1 = tr0 @ [Print (MsgCounts n_tiles n_users)] in
           if \<not> py_truthy knowledge_tiles_d1 then (tr1 @ [Print MsgNoTiles], None)
           else
          (case py_iter knowledge_tiles_d1 of
             Inl e \<Rightarrow> (tr1, Some e)
           | Inr tiles \<Rightarrow>
          (case convert_all repr_float repr_other nows 0 tiles of
             Inl e \<Rightarrow> (tr1, Some e)
           | Inr iath_compatible_tiles \<Rightarrow>
          (let tr2 = tr1 @ [NewEncoder, EncodeBatch iath_compatible_tiles 1] in
           case encode_batch iath_compatible_tiles 1 of
             Inl e \<Rightarrow> (tr2, Some e)
           | Inr iath_binary_data \<Rightarrow>
               (tr2 @ [OpenWrite OUTPUT_FILENAME, WriteBytes iath_binary_data,
                       Print MsgExported, Print (MsgFileSize (length iath_binary_data))],
                None))))))))))"

text \<open>The effects a claim about the encoder or the output file speaks of.\<close>

fun encode_calls :: "event list \<Rightarrow> (pyval list \<times> nat) list" where
  "encode_calls [] = []"
| "encode_calls (EncodeBatch ts dc # evs) = (ts, dc) # encode_calls evs"
| "encode_calls (ev # evs) = encode_calls evs"

fun is_output_effect :: "event \<Rightarrow> bool" where
  "is_output_effect NewEncoder = True"
| "is_output_effect (EncodeBatch ts dc) = True"
| "is_output_effect (OpenWrite name) = True"
| "is_output_effect (WriteBytes bs) = True"
| "is_output_effect ev = False"

section \<open>The IATH Batch Codec\<close>

text \<open>
  The script imports \<^verbatim>\<open>IathEncoder\<close> from the module \<^verbatim>\<open>iath_encoder\<close> of the
  repository. The source of that module is not among the sources of this development,
  so the definitions of this section follow the specification of the codec (sections 3,
  4, 6 and 7 of the spec) instead; each says so.
\<close>

text \<open>
  Modelled from the spec: the Text of the missing module \<^verbatim>\<open>iath_encoder\<close>, a sequence
  of Unicode code points (section 4.1 encodes it as UTF-8); the Float3 of section 4.1,
  three binary64 values kept as their bit patterns.
\<close>

type_synonym u32 = "32 word"
type_synonym utext = "nat list"
type_synonym float3 = "f64 \<times> f64 \<times> f64"

text \<open>
  Modelled from the spec: the reasons a \<^verbatim>\<open>ValidationError\<close> of the missing encoder
  carries, one for each check of section 4.2 (certainty outside [0.0, 1.0], empty
  \<^verbatim>\<open>knowledge_id\<close>, empty \<^verbatim>\<open>topic\<close>).
\<close>

datatype reason = CertaintyOutOfRange | EmptyKnowledgeId | EmptyTopic

text \<open>
  Modelled from the spec: the error taxonomy of section 7 of the missing codec,
  \<^verbatim>\<open>ValidationError{index, reason}\<close> at encode time and the five decode-time errors.
\<close>

datatype codec_error =
    ValidationError nat reason
  | BadMagic
  | UnsupportedVersion
  | TruncatedRecord
  | TrailingData
  | MalformedText

text \<open>
  Modelled from the spec: the Tile Record of section 3, the in-memory shape the missing
  codec encodes and decodes; its fields in the order of section 4.2.
\<close>

record tile_record =
  knowledge_id :: utext
  topic :: utext
  created_at :: utext
  medical_space :: float3
  meta_space :: float3
  thinking_process :: utext
  final_response :: utext
  verification_status :: utext
  initial_certainty :: f64
  reviewers :: "utext list"

text \<open>
  Modelled from the spec: the sequencing of the missing decoder's reads, where the
  first error ends the decode (section 7: decode is all-or-nothing).
\<close>

definition and_then :: "'err + 'x \<Rightarrow> ('x \<Rightarrow> 'err + 'y) \<Rightarrow> 'err + 'y" where
  "and_then r f = (case r of Inl e \<Rightarrow> Inl e | Inr x \<Rightarrow> f x)"

text \<open>
  Modelled from the spec: the unsigned 32-bit little-endian integer of the missing Field
  Codecs (sections 4.1 and 6), least significant byte first.
\<close>

definition encode_u32 :: "u32 \<Rightarrow> byte list" where
  "encode_u32 w = [ucast w, ucast (drop_bit 8 w), ucast (drop_bit 16 w), ucast (drop_bit 24 w)]"

text \<open>
  Modelled from the spec: the read of a \<^verbatim>\<open>U32\<close> by the missing decoder; fewer than
  4 bytes left is a truncated record.
\<close>

fun decode_u32 :: "byte list \<Rightarrow> codec_error + (u32 \<times> byte list)" where
  "decode_u32 (b0 # b1 # b2 # b3 # rest) =
     Inr (ucast b0 OR push_bit 8 (ucast b1) OR push_bit 16 (ucast b2) OR push_bit 24 (ucast b3),
          rest)"
| "decode_u32 bs = Inl TruncatedRecord"

text \<open>
  Modelled from the spec: the 64-bit IEEE-754 value of the missing Field Codecs, its 8
  bytes little-endian (section 4.1).
\<close>

definition encode_f64 :: "f64 \<Rightarrow> byte list" where
  "encode_f64 w =
     [ucast w, ucast (drop_bit 8 w), ucast (drop_bit 16 w), ucast (drop_bit 24 w),
      ucast (drop_bit 32 w), ucast (drop_bit 40 w), ucast (drop_bit 48 w), ucast (drop_bit 56 w)]"

text \<open>
  Modelled from the spec: the read of an \<^verbatim>\<open>F64\<close> by the missing decoder; truncated
  input fails with \<^verbatim>\<open>TruncatedRecord\<close> (section 4.1).
\<close>

fun decode_f64 :: "byte list \<Rightarrow> codec_error + (f64 \<times> byte list)" where
  "decode_f64 (b0 # b1 # b2 # b3 # b4 # b5 # b6 # b7 # rest) =
     Inr (ucast b0 OR push_bit 8 (ucast b1) OR push_bit 16 (ucast b2) OR push_bit 24 (ucast b3)
            OR push_bit 32 (ucast b4) OR push_bit 40 (ucast b5) OR push_bit 48 (ucast b6)
            OR push_bit 56 (ucast b7),
          rest)"
| "decode_f64 bs = Inl TruncatedRecord"

text \<open>
  Modelled from the spec: what the missing Text codec can encode, the Unicode scalar
  values (code points below 0x110000 that are no surrogates).
\<close>

definition scalar_value :: "nat \<Rightarrow> bool" where
  "scalar_value c = (c < 0xD800 \<or> (0xE000 \<le> c \<and> c < 0x110000))"

text \<open>Modelled from the spec: a byte of the missing encoder's output, from its value.\<close>

definition byte_of :: "nat \<Rightarrow> byte" where
  "byte_of n = of_nat n"

text \<open>
  Modelled from the spec: the UTF-8 bytes of one code point, as the missing Text codec
  of section 4.1 writes them (1 to 4 bytes).
\<close>

definition utf8_encode_cp :: "nat \<Rightarrow> byte list" where
  "utf8_encode_cp c =
     (if c < 0x80 then [byte_of c]
      else if c < 0x800 then [byte_of (0xC0 + c div 64), byte_of (0x80 + c mod 64)]
      else if c < 0x10000 then
        [byte_of (0xE0 + c div 4096), byte_of (0x80 + c div 64 mod 64), byte_of (0x80 + c mod 64)]
      else
        [byte_of (0xF0 + c div 262144), byte_of (0x80 + c div 4096 mod 64),
         byte_of (0x80 + c div 64 mod 64), byte_of (0x80 + c mod 64)])"

text \<open>Modelled from the spec: the UTF-8 bytes of a Text of the missing codec.\<close>

definition utf8_encode :: "utext \<Rightarrow> byte list" where
  "utf8_encode t = concat (map utf8_encode_cp t)"

text \<open>Modelled from the spec: a UTF-8 continuation byte, for the missing decoder.\<close>

definition continuation :: "byte \<Rightarrow> bool" where
  "continuation b = (0x80 \<le> unat b \<and> unat b < 0xC0)"

text \<open>
  Modelled from the spec: the missing decoder's read of one code point from bytes that
  must be valid UTF-8 (section 4.1); \<open>None\<close> for a bad lead byte, a missing or bad
  continuation byte, an overlong form, a surrogate or a value from 0x110000 on.
\<close>

fun utf8_decode_cp :: "byte list \<Rightarrow> (nat \<times> byte list) option" where
  "utf8_decode_cp [] = None"
| "utf8_decode_cp (b0 # bs) =
     (if unat b0 < 0x80 then Some (unat b0, bs)
      else if unat b0 < 0xC0 then None
      else if unat b0 < 0xE0 then
        (case bs of
           b1 # rest \<Rightarrow>
             (let c = (unat b0 - 0xC0) * 64 + (unat b1 - 0x80)
              in if continuation b1 \<and> 0x80 \<le> c then Some (c, rest) else None)
         | _ \<Rightarrow> None)
      else if unat b0 < 0xF0 then
        (case bs of
           b1 # b2 # rest \<Rightarrow>
             (let c = (unat b0 - 0xE0) * 4096 + (unat b1 - 0x80) * 64 + (unat b2 - 0x80)
              in if continuation b1 \<and> continuation b2 \<and> 0x800 \<le> c \<and> scalar_value c
                 then Some (c, rest) else None)
         | _ \<Rightarrow> None)
      else if unat b0 < 0xF8 then
        (case bs of
           b1 # b2 # b3 # rest \<Rightarrow>
             (let c = (unat b0 - 0xF0) * 262144 + (unat b1 - 0x80) * 4096
                        + (unat b2 - 0x80) * 64 + (unat b3 - 0x80)
              in if continuation b1 \<and> continuation b2 \<and> continuation b3
                    \<and> 0x10000 \<le> c \<and> scalar_value c
                 then Some (c, rest) else None)
         | _ \<Rightarrow> None)
      else None)"

lemma utf8_decode_cp_shorter:
  "utf8_decode_cp bs = Some (c, rest) \<Longrightarrow> length rest < length bs"
  by (cases bs) (auto simp: Let_def split: if_splits list.splits)

text \<open>
  Modelled from the spec: the missing decoder's reading of a whole byte sequence as
  UTF-8; \<open>None\<close> when the bytes are not valid UTF-8.
\<close>

function utf8_decode :: "byte list \<Rightarrow> utext option" where
  "utf8_decode bs =
     (if bs = [] then Some []
      else case utf8_decode_cp bs of
             None \<Rightarrow> None
           | Some (c, rest) \<Rightarrow>
               (case utf8_decode rest of None \<Rightarrow> None | Some cs \<Rightarrow> Some (c # cs)))"
  by pat_completeness auto
termination
  by (relation "measure length") (auto dest: utf8_decode_cp_shorter)

declare utf8_decode.simps [simp del]

text \<open>
  Modelled from the spec: the Text encoder of the missing Field Codecs (section 4.1),
  the number of encoded bytes as an unsigned 32-bit integer and then the UTF-8 bytes.
\<close>

definition encode_text :: "utext \<Rightarrow> byte list" where
  "encode_text t = (let bs = utf8_encode t in encode_u32 (of_nat (length bs)) @ bs)"

text \<open>
  Modelled from the spec: the Text decoder of the missing Field Codecs (section 4.1). It
  reads the length and then exactly that many bytes, and fails with
  \<^verbatim>\<open>MalformedText\<close> if the declared length exceeds the remaining bytes or the bytes
  are not valid UTF-8.
\<close>

definition decode_text :: "byte list \<Rightarrow> codec_error + (utext \<times> byte list)" where
  "decode_text bs =
     and_then (decode_u32 bs) (\<lambda>(n, rest).
       if length rest < unat n then Inl MalformedText
       else case utf8_decode (take (unat n) rest) of
              None \<Rightarrow> Inl MalformedText
            | Some t \<Rightarrow> Inr (t, drop (unat n) rest))"

text \<open>
  Modelled from the spec: the Float3 encoder of the missing Field Codecs, three
  consecutive 64-bit values (section 4.1).
\<close>

definition encode_float3 :: "float3 \<Rightarrow> byte list" where
  "encode_float3 v = (case v of (x, y, z) \<Rightarrow> encode_f64 x @ encode_f64 y @ encode_f64 z)"

text \<open>
  Modelled from the spec: the Float3 decoder of the missing Field Codecs; it reads
  exactly 24 bytes.
\<close>

definition decode_float3 :: "byte list \<Rightarrow> codec_error + (float3 \<times> byte list)" where
  "decode_float3 bs =
     and_then (decode_f64 bs) (\<lambda>(x, r1).
     and_then (decode_f64 r1) (\<lambda>(y, r2).
     and_then (decode_f64 r2) (\<lambda>(z, r3). Inr ((x, y, z), r3))))"

text \<open>
  Modelled from the spec: the identifier list encoder of the missing Field Codecs, an
  unsigned 32-bit count and then that many Text entries (section 4.1).
\<close>

definition encode_id_list :: "utext list \<Rightarrow> byte list" where
  "encode_id_list ids = encode_u32 (of_nat (length ids)) @ concat (map encode_text ids)"

text \<open>Modelled from the spec: the missing decoder's read of \<open>n\<close> Text entries in a row.\<close>

fun decode_texts :: "nat \<Rightarrow> byte list \<Rightarrow> codec_error + (utext list \<times> byte list)" where
  "decode_texts 0 bs = Inr ([], bs)"
| "decode_texts (Suc n) bs =
     and_then (decode_text bs) (\<lambda>(t, r1).
     and_then (decode_texts n r1) (\<lambda>(ts, r2). Inr (t # ts, r2)))"

text \<open>Modelled from the spec: the identifier list decoder of the missing Field Codecs.\<close>

definition decode_id_list :: "byte list \<Rightarrow> codec_error + (utext list \<times> byte list)" where
  "decode_id_list bs = and_then (decode_u32 bs) (\<lambda>(n, rest). decode_texts (unat n) rest)"

text \<open>
  Modelled from the spec: the range check of the missing encoder on
  \<^verbatim>\<open>initial_certainty\<close>, \<open>0.0 \<le> x \<le> 1.0\<close>, read on the bit pattern. The binary64
  values from \<open>+0.0\<close> to \<open>1.0\<close> are the patterns from 0 to 0x3FF0000000000000;
  \<open>-0.0\<close> (0x8000000000000000) compares equal to \<open>0.0\<close>; every other pattern is
  above 1.0, negative or not a number.
\<close>

definition in_unit_interval :: "f64 \<Rightarrow> bool" where
  "in_unit_interval w = (w \<le> 0x3FF0000000000000 \<or> w = 0x8000000000000000)"

text \<open>
  Modelled from the spec: the validation of one tile by the missing Tile Codec (section
  4.2): \<^verbatim>\<open>initial_certainty\<close> outside [0.0, 1.0], or \<^verbatim>\<open>knowledge_id\<close> or
  \<^verbatim>\<open>topic\<close> empty. The checks are made in the order the spec names them.
\<close>

definition validate_tile :: "tile_record \<Rightarrow> reason option" where
  "validate_tile t =
     (if \<not> in_unit_interval (initial_certainty t) then Some CertaintyOutOfRange
      else if knowledge_id t = [] then Some EmptyKnowledgeId
      else if topic t = [] then Some EmptyTopic
      else None)"

text \<open>
  Modelled from the spec: the block of one tile as the missing Tile Codec lays it out,
  the fields in the fixed order of sections 4.2 and 6, with no length prefix around the
  block.
\<close>

definition tile_bytes :: "tile_record \<Rightarrow> byte list" where
  "tile_bytes t =
     encode_text (knowledge_id t) @ encode_text (topic t) @ encode_text (created_at t)
     @ encode_float3 (medical_space t) @ encode_float3 (meta_space t)
     @ encode_text (thinking_process t) @ encode_text (final_response t)
     @ encode_text (verification_status t) @ encode_f64 (initial_certainty t)
     @ encode_id_list (reviewers t)"

text \<open>
  Modelled from the spec: the decode of the missing Tile Codec, purely mechanical: it
  reads the fields in the fixed order and checks neither ranges nor emptiness.
\<close>

definition decode_tile :: "byte list \<Rightarrow> codec_error + (tile_record \<times> byte list)" where
  "decode_tile bs =
     and_then (decode_text bs) (\<lambda>(kid, r1).
     and_then (decode_text r1) (\<lambda>(top, r2).
     and_then (decode_text r2) (\<lambda>(cre, r3).
     and_then (decode_float3 r3) (\<lambda>(med, r4).
     and_then (decode_float3 r4) (\<lambda>(met, r5).
     and_then (decode_text r5) (\<lambda>(thi, r6).
     and_then (decode_text r6) (\<lambda>(fin, r7).
     and_then (decode_text r7) (\<lambda>(sta, r8).
     and_then (decode_f64 r8) (\<lambda>(cer, r9).
     and_then (decode_id_list r9) (\<lambda>(rev, r10).
       Inr (\<lparr> knowledge_id = kid, topic = top, created_at = cre, medical_space = med,
              meta_space = met, thinking_process = thi, final_response = fin,
              verification_status = sta, initial_certainty = cer, reviewers = rev \<rparr>,
            r10)))))))))))"

text \<open>
  Modelled from the spec: the 4-byte magic constant of the missing Batch Codec. The spec
  fixes its length and not its value; the ASCII letters IATH stand for it.
\<close>

definition MAGIC :: "byte list" where
  "MAGIC = [0x49, 0x41, 0x54, 0x48]"

text \<open>
  Modelled from the spec: the format version the missing encoder writes and the newest
  one its decoder understands. The spec does not fix the number; 1 stands for it.
\<close>

definition FORMAT_VERSION :: byte where
  "FORMAT_VERSION = 1"

text \<open>
  Modelled from the spec: the validation pass of the missing Batch Codec over every
  tile, before any byte is produced; the first invalid tile, with its index (counted
  from \<open>i\<close>), is what the error reports (section 4.3).
\<close>

fun first_invalid :: "nat \<Rightarrow> tile_record list \<Rightarrow> (nat \<times> reason) option" where
  "first_invalid i [] = None"
| "first_invalid i (t # ts) =
     (case validate_tile t of Some r \<Rightarrow> Some (i, r) | None \<Rightarrow> first_invalid (Suc i) ts)"

text \<open>
  Modelled from the spec: \<^verbatim>\<open>encode(tiles, domain_code) -> bytes\<close> of the missing Batch
  Codec (section 4.3): the header (magic, 1-byte version, 1-byte domain code, 4-byte
  little-endian tile count) and then the tile blocks in the order given. A failing encode
  is an error alone; it has no bytes.
\<close>

definition encode :: "tile_record list \<Rightarrow> byte \<Rightarrow> codec_error + byte list" where
  "encode tiles domain_code =
     (case first_invalid 0 tiles of
        Some (i, r) \<Rightarrow> Inl (ValidationError i r)
      | None \<Rightarrow>
          Inr (MAGIC @ [FORMAT_VERSION, domain_code] @ encode_u32 (of_nat (length tiles))
               @ concat (map tile_bytes tiles)))"

text \<open>Modelled from the spec: the missing decoder's read of \<open>n\<close> tile blocks in a row.\<close>

fun decode_tiles :: "nat \<Rightarrow> byte list \<Rightarrow> codec_error + (tile_record list \<times> byte list)" where
  "decode_tiles 0 bs = Inr ([], bs)"
| "decode_tiles (Suc n) bs =
     and_then (decode_tile bs) (\<lambda>(t, r1).
     and_then (decode_tiles n r1) (\<lambda>(ts, r2). Inr (t # ts, r2)))"

text \<open>
  Modelled from the spec: \<^verbatim>\<open>decode(bytes) -> (domain_code, format_version, tiles)\<close> of
  the missing Batch Codec (section 4.3). The magic and the version are checked before
  any tile is parsed; after \<^verbatim>\<open>tile_count\<close> blocks no byte may be left.
\<close>

definition decode :: "byte list \<Rightarrow> codec_error + (byte \<times> byte \<times> tile_record list)" where
  "decode bs =
     (if take 4 bs \<noteq> MAGIC then Inl BadMagic
      else case drop 4 bs of
             [] \<Rightarrow> Inl TruncatedRecord
           | version # r \<Rightarrow>
               if FORMAT_VERSION < version then Inl UnsupportedVersion
               else (case r of
                       [] \<Rightarrow> Inl TruncatedRecord
                     | domain_code # r' \<Rightarrow>
                         and_then (decode_u32 r') (\<lambda>(n, body).
                         and_then (decode_tiles (unat n) body) (\<lambda>(tiles, trailing).
                           if trailing \<noteq> [] then Inl TrailingData
                           else Inr (domain_code, version, tiles)))))"

text \<open>
  Modelled from the spec: \<^verbatim>\<open>decode(encode(B))\<close> of section 8 for the missing codec,
  the batch \<open>B\<close> given by its tiles and its domain code.
\<close>

definition roundtrip ::
    "tile_record list \<Rightarrow> byte \<Rightarrow> codec_error + (byte \<times> byte \<times> tile_record list)" where
  "roundtrip tiles domain_code = and_then (encode tiles domain_code) decode"

text \<open>
  Modelled from the spec: what makes a tile of a batch valid for the missing codec. The
  invariants of section 3 are those the encoder checks (\<open>tile_valid\<close>; that each space
  has exactly 3 coordinates is in the type). Every text is a sequence of Unicode scalar
  values (\<open>tile_wf\<close>). \<open>tile_fits\<close> says that the sizes the format stores in 32 bits
  are below \<open>2 ^ 32\<close>: the UTF-8 length of every text and the number of reviewers.
\<close>

definition tile_valid :: "tile_record \<Rightarrow> bool" where
  "tile_valid t = (validate_tile t = None)"

text \<open>
  Modelled from the spec: a Text the missing codec can encode, code points that are all
  Unicode scalar values.
\<close>

definition wf_text :: "utext \<Rightarrow> bool" where
  "wf_text t = list_all scalar_value t"

text \<open>
  Modelled from the spec: a Text whose UTF-8 length the missing codec's 32-bit length
  prefix can hold.
\<close>

definition text_fits :: "utext \<Rightarrow> bool" where
  "text_fits t = (length (utf8_encode t) < 2 ^ 32)"

text \<open>Modelled from the spec: a tile of the missing codec all of whose texts are well formed.\<close>

definition tile_wf :: "tile_record \<Rightarrow> bool" where
  "tile_wf t =
     (wf_text (knowledge_id t) \<and> wf_text (topic t) \<and> wf_text (created_at t)
      \<and> wf_text (thinking_process t) \<and> wf_text (final_response t)
      \<and> wf_text (verification_status t) \<and> list_all wf_text (reviewers t))"

text \<open>
  Modelled from the spec: a tile of the missing codec all of whose texts fit their length
  prefix and whose reviewer count fits its 32-bit count.
\<close>

definition tile_fits :: "tile_record \<Rightarrow> bool" where
  "tile_fits t =
     (text_fits (knowledge_id t) \<and> text_fits (topic t) \<and> text_fits (created_at t)
      \<and> text_fits (thinking_process t) \<and> text_fits (final_response t)
      \<and> text_fits (verification_status t) \<and> list_all text_fits (reviewers t)
      \<and> length (reviewers t) < 2 ^ 32)"

text \<open>
  Modelled from the spec: the single tile of the example of section 8 for the missing
  codec (\<^verbatim>\<open>knowledge_id\<close> k1, \<^verbatim>\<open>topic\<close> Test, coordinates (1.0, 2.0, 3.0) and
  (0.0, 0.0, 0.0), certainty 0.5, no reviewers) needs its texts as code points:
  \<open>text_of\<close> gives those of an ASCII string. The example has no timestamp; one is
  added.
\<close>

definition text_of :: "string \<Rightarrow> utext" where
  "text_of s = map of_char s"

text \<open>Modelled from the spec: the example tile of section 8 for the missing codec.\<close>

definition example_tile :: tile_record where
  "example_tile =
     \<lparr> knowledge_id = text_of ''k1'', topic = text_of ''Test'',
       created_at = text_of ''2024-01-01T00:00:00'',
       medical_space = (0x3FF0000000000000, 0x4000000000000000, 0x4008000000000000),
       meta_space = (0, 0, 0),
       thinking_process = [], final_response = text_of ''Answer'',
       verification_status = text_of ''pending_review'',
       initial_certainty = 0x3FE0000000000000, reviewers = [] \<rparr>"

section \<open>Properties of the Record Normalizer\<close>

lemma prints_py_format:
  "prints repr_other v \<Longrightarrow> \<exists>s. py_format repr_float repr_other v = Inr s"
  by (cases v) (auto split: sum.splits)

lemma accepted_row_converts:
  "accepted_row repr_other x \<Longrightarrow> \<exists>t. call_convert repr_float repr_other now x = Inr t"
proof (cases x)
  case (PDict kvs)
  assume "accepted_row repr_other x"
  with PDict have "prints repr_other (dict_get (map_of kvs) ''content'' (PStr ''''))"
    by (simp add: dict_get_def split: option.splits)
  from prints_py_format [OF this] obtain s where
    "py_format repr_float repr_other (dict_get (map_of kvs) ''content'' (PStr '''')) = Inr s"
    by blast
  with PDict show ?thesis
    by (simp add: convert_d1_to_iath_v1_compatible_def Let_def)
qed simp_all

text \<open>
  Claim C2, as amended. For every source row whose \<^verbatim>\<open>id\<close> is a non-empty string and
  whose \<^verbatim>\<open>topic\<close> is either missing or a non-empty string, the record produced by
  the normalizer has a non-empty \<^verbatim>\<open>knowledge_id\<close> and a non-empty \<^verbatim>\<open>topic\<close>. The
  normalizer fills a default for a missing topic only; it has none for the identifier
  and checks no value the row supplies.
\<close>

theorem normalizer_id_topic_nonempty:
  assumes "d1_tile ''id'' = Some (PStr i)" and "i \<noteq> []"
    and "d1_tile ''topic'' = None \<or> (\<exists>t. d1_tile ''topic'' = Some (PStr t) \<and> t \<noteq> [])"
    and "convert_d1_to_iath_v1_compatible repr_float repr_other now d1_tile = Inr rec"
  shows "\<exists>k t.
      field rec ''metadata'' ''knowledge_id'' = Some k \<and> nonempty_text k
    \<and> field rec ''metadata'' ''topic'' = Some t \<and> nonempty_text t"
  using assms
  by (auto simp: convert_d1_to_iath_v1_compatible_def field_def Let_def dict_get_def
      split: sum.splits)

text \<open>
  Witness for C2: the row \<^verbatim>\<open>{'id': 'k1'}\<close> meets the hypotheses; the normalizer
  returns a record with the identifier \<^verbatim>\<open>'k1'\<close> and the default topic.
\<close>

theorem normalizer_id_topic_nonempty_witness:
  "map_of [(''id'', PStr ''k1'')] ''id'' = Some (PStr ''k1'')
   \<and> result_field (convert_d1_to_iath_v1_compatible (\<lambda>w. []) (\<lambda>v. Inr [])
        ''2026-01-01T00:00:00'' (map_of [(''id'', PStr ''k1'')])) ''metadata'' ''knowledge_id''
       = Some (PStr ''k1'')
   \<and> result_field (convert_d1_to_iath_v1_compatible (\<lambda>w. []) (\<lambda>v. Inr [])
        ''2026-01-01T00:00:00'' (map_of [(''id'', PStr ''k1'')])) ''metadata'' ''topic''
       = Some (PStr ''Untitled Topic'')"
proof -
  obtain rec where rec:
    "convert_d1_to_iath_v1_compatible (\<lambda>w. []) (\<lambda>v. Inr []) ''2026-01-01T00:00:00''
       (map_of [(''id'', PStr ''k1'')]) = Inr rec"
    by (simp add: convert_d1_to_iath_v1_compatible_def Let_def dict_get_def)
  have "map_of [(''id'', PStr ''k1'')] ''id'' = Some (PStr ''k1'')" and "''k1'' \<noteq> []"
    and "map_of [(''id'', PStr ''k1'')] ''topic'' = None
         \<or> (\<exists>t. map_of [(''id'', PStr ''k1'')] ''topic'' = Some (PStr t) \<and> t \<noteq> [])"
    by simp_all
  from normalizer_id_topic_nonempty [OF this rec] rec show ?thesis
    by (auto simp: convert_d1_to_iath_v1_compatible_def result_field_def field_def Let_def
        dict_get_def)
qed

text \<open>
  Counterexample to C2 as stated: the row \<^verbatim>\<open>{'topic': ''}\<close> has no \<^verbatim>\<open>id\<close> and an
  empty topic. The normalizer returns a record whose \<^verbatim>\<open>knowledge_id\<close> is
  \<^verbatim>\<open>None\<close> and whose topic is empty.
\<close>

theorem normalizer_id_topic_counterexample:
  "result_field (convert_d1_to_iath_v1_compatible (\<lambda>w. []) (\<lambda>v. Inr []) []
      (map_of [(''topic'', PStr [])])) ''metadata'' ''knowledge_id'' = Some PNone
   \<and> \<not> nonempty_text PNone
   \<and> result_field (convert_d1_to_iath_v1_compatible (\<lambda>w. []) (\<lambda>v. Inr []) []
      (map_of [(''topic'', PStr [])])) ''metadata'' ''topic'' = Some (PStr [])
   \<and> \<not> nonempty_text (PStr [])"
  by (simp add: convert_d1_to_iath_v1_compatible_def result_field_def field_def Let_def
      dict_get_def)

text \<open>
  Claim C4. Every record the normalizer produces, whatever fields the source row has or
  lacks, has \<^verbatim>\<open>medical_space\<close> and \<^verbatim>\<open>meta_space\<close> lists of exactly 3 elements.
\<close>

theorem normalizer_spaces_length_3:
  assumes "convert_d1_to_iath_v1_compatible repr_float repr_other now d1_tile = Inr rec"
  shows "\<exists>xs ys.
     field rec ''coordinates'' ''medical_space'' = Some (PList xs) \<and> length xs = 3
   \<and> field rec ''coordinates'' ''meta_space'' = Some (PList ys) \<and> length ys = 3"
  using assms
  by (auto simp: convert_d1_to_iath_v1_compatible_def field_def Let_def split: sum.splits)

text \<open>
  Witness for C4: the row with no field at all. The normalizer returns a record whose
  two spaces are three zeros each.
\<close>

theorem normalizer_spaces_length_3_witness:
  "result_field (convert_d1_to_iath_v1_compatible (\<lambda>w. []) (\<lambda>v. Inr []) [] Map.empty)
      ''coordinates'' ''medical_space''
     = Some (PList [PFloat f64_zero, PFloat f64_zero, PFloat f64_zero])
   \<and> result_field (convert_d1_to_iath_v1_compatible (\<lambda>w. []) (\<lambda>v. Inr []) [] Map.empty)
      ''coordinates'' ''meta_space''
     = Some (PList [PFloat f64_zero, PFloat f64_zero, PFloat f64_zero])"
proof -
  obtain rec where rec:
    "convert_d1_to_iath_v1_compatible (\<lambda>w. []) (\<lambda>v. Inr []) [] Map.empty = Inr rec"
    by (simp add: convert_d1_to_iath_v1_compatible_def Let_def dict_get_def)
  from normalizer_spaces_length_3 [OF rec] rec show ?thesis
    by (auto simp: convert_d1_to_iath_v1_compatible_def result_field_def field_def Let_def
        dict_get_def)
qed

text \<open>
  Claim C5, as amended. The normalizer is total on the dictionaries whose
  \<^verbatim>\<open>content\<close> is missing or prints: a string, \<^verbatim>\<open>None\<close>, a boolean, a float, an
  integer of at most 4300 decimal digits, or a list or dictionary whose \<^verbatim>\<open>repr\<close>
  does not raise. Called on such a dictionary, with any or all other fields missing,
  it returns (it does not raise) a record with the four sections \<^verbatim>\<open>metadata\<close>,
  \<^verbatim>\<open>coordinates\<close>, \<^verbatim>\<open>content\<close> and \<^verbatim>\<open>verification\<close>, each with all of its
  keys.
\<close>

theorem normalizer_total_on_dicts:
  assumes "accepted_row repr_other (PDict kvs)"
  shows "\<exists>rec m c t v.
     call_convert repr_float repr_other now (PDict kvs) = Inr rec
   \<and> keys rec = Some [''metadata'', ''coordinates'', ''content'', ''verification'']
   \<and> subscript rec ''metadata'' = Some m
   \<and> keys m = Some [''knowledge_id'', ''topic'', ''created_at'']
   \<and> subscript rec ''coordinates'' = Some c
   \<and> keys c = Some [''medical_space'', ''meta_space'']
   \<and> subscript rec ''content'' = Some t
   \<and> keys t = Some [''thinking_process'', ''final_response'']
   \<and> subscript rec ''verification'' = Some v
   \<and> keys v = Some [''status'', ''initial_certainty'', ''reviewers'']"
proof -
  from assms have "prints repr_other (dict_get (map_of kvs) ''content'' (PStr ''''))"
    by (simp add: dict_get_def split: option.splits)
  from prints_py_format [OF this] obtain s where
    "py_format repr_float repr_other (dict_get (map_of kvs) ''content'' (PStr '''')) = Inr s"
    by blast
  then show ?thesis
    by (simp add: convert_d1_to_iath_v1_compatible_def Let_def)
qed

text \<open>
  Witness for C5: the dictionary with no field at all is accepted, and the normalizer
  returns on it.
\<close>

theorem normalizer_total_on_dicts_witness:
  "accepted_row (\<lambda>v. Inr []) (PDict [])
   \<and> (\<exists>rec. call_convert (\<lambda>w. []) (\<lambda>v. Inr []) [] (PDict []) = Inr rec
         \<and> keys rec = Some [''metadata'', ''coordinates'', ''content'', ''verification''])"
  using normalizer_total_on_dicts [of "\<lambda>v. Inr []" "[]" "\<lambda>w. []" "[]"]
  by auto

text \<open>
  Counterexample to C5 as stated: the dictionary \<^verbatim>\<open>{'content': 10 ** 4300}\<close>, an
  integer of 4301 digits. The f-string of line 39 raises \<^verbatim>\<open>ValueError\<close> and the
  normalizer returns no record.
\<close>

theorem normalizer_total_counterexample:
  "call_convert (\<lambda>w. []) (\<lambda>v. Inr []) []
     (PDict [(''content'', PInt (10 ^ int_max_str_digits))]) = Inl ValueError"
  by (simp add: convert_d1_to_iath_v1_compatible_def Let_def dict_get_def)

text \<open>
  Claim C6. For every source row with no \<^verbatim>\<open>verification_status\<close> field, the
  verification status of the record the normalizer produces is the string
  \<^verbatim>\<open>'pending_review'\<close>.
\<close>

theorem normalizer_default_status:
  assumes "d1_tile ''verification_status'' = None"
    and "convert_d1_to_iath_v1_compatible repr_float repr_other now d1_tile = Inr rec"
  shows "field rec ''verification'' ''status'' = Some (PStr ''pending_review'')"
  using assms
  by (auto simp: convert_d1_to_iath_v1_compatible_def field_def Let_def dict_get_def
      split: sum.splits)

text \<open>Witness for C6: a row with an identifier and a content and no status.\<close>

theorem normalizer_default_status_witness:
  "map_of [(''id'', PStr ''k1''), (''content'', PStr ''Answer'')] ''verification_status'' = None
   \<and> result_field (convert_d1_to_iath_v1_compatible (\<lambda>w. []) (\<lambda>v. Inr [])
        ''2026-01-01T00:00:00'' (map_of [(''id'', PStr ''k1''), (''content'', PStr ''Answer'')]))
        ''verification'' ''status''
       = Some (PStr ''pending_review'')"
proof -
  obtain rec where rec:
    "convert_d1_to_iath_v1_compatible (\<lambda>w. []) (\<lambda>v. Inr []) ''2026-01-01T00:00:00''
       (map_of [(''id'', PStr ''k1''), (''content'', PStr ''Answer'')]) = Inr rec"
    by (simp add: convert_d1_to_iath_v1_compatible_def Let_def dict_get_def)
  have "map_of [(''id'', PStr ''k1''), (''content'', PStr ''Answer'')] ''verification_status''
          = None"
    by simp
  from normalizer_default_status [OF this rec] rec show ?thesis
    by (simp add: result_field_def)
qed

text \<open>
  Claim C8. Every record the normalizer produces, whatever values the source row
  supplies, has \<^verbatim>\<open>meta_space\<close> \<^verbatim>\<open>[0.0, 0.0, 0.0]\<close>, \<^verbatim>\<open>initial_certainty\<close>
  \<^verbatim>\<open>0.5\<close> and \<^verbatim>\<open>reviewers\<close> the empty list: the row is not read for them.
\<close>

theorem normalizer_constants:
  assumes "convert_d1_to_iath_v1_compatible repr_float repr_other now d1_tile = Inr rec"
  shows "field rec ''coordinates'' ''meta_space''
           = Some (PList [PFloat f64_zero, PFloat f64_zero, PFloat f64_zero])
       \<and> field rec ''verification'' ''initial_certainty'' = Some (PFloat f64_half)
       \<and> field rec ''verification'' ''reviewers'' = Some (PList [])"
  using assms
  by (auto simp: convert_d1_to_iath_v1_compatible_def field_def Let_def split: sum.splits)

text \<open>
  Witness for C8: a row that supplies \<^verbatim>\<open>meta_space\<close>, \<^verbatim>\<open>initial_certainty\<close> and
  \<^verbatim>\<open>reviewers\<close> of its own; the record has the constants all the same.
\<close>

theorem normalizer_constants_witness:
  "result_field (convert_d1_to_iath_v1_compatible (\<lambda>w. []) (\<lambda>v. Inr []) []
      (map_of [(''meta_space'', PList [PInt 1, PInt 2, PInt 3]),
               (''initial_certainty'', PInt 1), (''reviewers'', PList [PStr ''r1''])]))
      ''verification'' ''reviewers'' = Some (PList [])
   \<and> result_field (convert_d1_to_iath_v1_compatible (\<lambda>w. []) (\<lambda>v. Inr []) []
      (map_of [(''meta_space'', PList [PInt 1, PInt 2, PInt 3]),
               (''initial_certainty'', PInt 1), (''reviewers'', PList [PStr ''r1''])]))
      ''verification'' ''initial_certainty'' = Some (PFloat f64_half)"
proof -
  obtain rec where rec:
    "convert_d1_to_iath_v1_compatible (\<lambda>w. []) (\<lambda>v. Inr []) []
      (map_of [(''meta_space'', PList [PInt 1, PInt 2, PInt 3]),
               (''initial_certainty'', PInt 1), (''reviewers'', PList [PStr ''r1''])]) = Inr rec"
    by (simp add: convert_d1_to_iath_v1_compatible_def Let_def dict_get_def)
  from normalizer_constants [OF rec] rec show ?thesis
    by (simp add: result_field_def)
qed

text \<open>
  Claim C9, as amended. For every source row whose \<^verbatim>\<open>content\<close> is missing or is a
  string, the normalizer returns a record whose \<^verbatim>\<open>thinking_process\<close> is
  \<^verbatim>\<open>'[Auto-imported]\n'\<close> followed by that content (the empty string when the field
  is missing) and whose \<^verbatim>\<open>final_response\<close> is that content string, and so
  \<^verbatim>\<open>final_response\<close> is a suffix of \<^verbatim>\<open>thinking_process\<close>.
\<close>

theorem normalizer_content_split:
  assumes "d1_tile ''content'' = None \<and> s = [] \<or> d1_tile ''content'' = Some (PStr s)"
  shows "\<exists>rec. convert_d1_to_iath_v1_compatible repr_float repr_other now d1_tile = Inr rec
       \<and> field rec ''content'' ''thinking_process''
           = Some (PStr (''[Auto-imported]'' @ [CHR 0x0A] @ s))
       \<and> field rec ''content'' ''final_response'' = Some (PStr s)
       \<and> suffix s (''[Auto-imported]'' @ [CHR 0x0A] @ s)"
  using assms
  by (auto simp: convert_d1_to_iath_v1_compatible_def field_def Let_def dict_get_def suffix_def)

text \<open>Witness for C9: the row \<^verbatim>\<open>{'content': 'Answer'}\<close>.\<close>

theorem normalizer_content_split_witness:
  "map_of [(''content'', PStr ''Answer'')] ''content'' = Some (PStr ''Answer'')
   \<and> result_field (convert_d1_to_iath_v1_compatible (\<lambda>w. []) (\<lambda>v. Inr []) []
        (map_of [(''content'', PStr ''Answer'')])) ''content'' ''thinking_process''
       = Some (PStr (''[Auto-imported]'' @ [CHR 0x0A] @ ''Answer''))
   \<and> result_field (convert_d1_to_iath_v1_compatible (\<lambda>w. []) (\<lambda>v. Inr []) []
        (map_of [(''content'', PStr ''Answer'')])) ''content'' ''final_response''
       = Some (PStr ''Answer'')"
  using normalizer_content_split
    [of "map_of [(''content'', PStr ''Answer'')]" "''Answer''" "\<lambda>w. []" "\<lambda>v. Inr []" "[]"]
  by (auto simp: result_field_def)

text \<open>
  Counterexample to C9 as stated: the row \<^verbatim>\<open>{'content': None}\<close> (a JSON
  \<^verbatim>\<open>null\<close>). The \<^verbatim>\<open>final_response\<close> of its record is \<^verbatim>\<open>None\<close>, which is no
  string and no suffix of one, while its \<^verbatim>\<open>thinking_process\<close> ends with the four
  characters \<^verbatim>\<open>None\<close>.
\<close>

theorem normalizer_content_split_counterexample:
  "result_field (convert_d1_to_iath_v1_compatible (\<lambda>w. []) (\<lambda>v. Inr []) []
        (map_of [(''content'', PNone)])) ''content'' ''final_response'' = Some PNone
   \<and> result_field (convert_d1_to_iath_v1_compatible (\<lambda>w. []) (\<lambda>v. Inr []) []
        (map_of [(''content'', PNone)])) ''content'' ''thinking_process''
       = Some (PStr (''[Auto-imported]'' @ [CHR 0x0A] @ ''None''))"
  by (simp add: convert_d1_to_iath_v1_compatible_def result_field_def field_def Let_def
      dict_get_def)

section \<open>Properties of the entry point\<close>

lemma convert_all_Inr:
  "convert_all rf r nows i items = Inr ts \<Longrightarrow>
     length ts = length items
     \<and> (\<forall>j<length items. call_convert rf r (nows (i + j)) (items ! j) = Inr (ts ! j))"
proof (induction items arbitrary: i ts)
  case Nil
  then show ?case by simp
next
  case (Cons x xs)
  from Cons.prems obtain t ts' where
    t: "call_convert rf r (nows i) x = Inr t" and
    ts': "convert_all rf r nows (Suc i) xs = Inr ts'" and
    eq: "ts = t # ts'"
    by (auto split: sum.splits)
  from Cons.IH [OF ts'] have
    len: "length ts' = length xs" and
    nth: "\<And>j. j < length xs \<Longrightarrow> call_convert rf r (nows (Suc i + j)) (xs ! j) = Inr (ts' ! j)"
    by auto
  show ?case
  proof (intro conjI allI impI)
    show "length ts = length (x # xs)" using len eq by simp
  next
    fix j assume "j < length (x # xs)"
    then show "call_convert rf r (nows (i + j)) ((x # xs) ! j) = Inr (ts ! j)"
      using t nth eq by (cases j) auto
  qed
qed

lemma convert_all_not_dict:
  "items \<noteq> [] \<Longrightarrow> \<forall>v\<in>set items. \<exists>s. v = PStr s \<Longrightarrow>
     convert_all rf r nows i items = Inl AttributeError"
  by (cases items) auto

lemma encode_calls_append: "encode_calls (xs @ ys) = encode_calls xs @ encode_calls ys"
  by (induction xs rule: encode_calls.induct) auto

lemma py_len_cases: "(\<exists>n. py_len v = Inr n) \<or> py_len v = Inl TypeError"
  by (cases v) auto

text \<open>
  Claim C7. Whenever \<^verbatim>\<open>main\<close> hands a list to \<^verbatim>\<open>encode_batch\<close>, the fetched
  \<^verbatim>\<open>knowledge_tiles\<close> is an array, the list has the array's length, and for every
  index \<open>i\<close> its \<open>i\<close>-th element is the normalization of the \<open>i\<close>-th fetched tile
  (\<^verbatim>\<open>domain_code\<close> is 1).
\<close>

theorem main_encode_call_preserves_order:
  assumes "(ts, dc) \<in> set (encode_calls
             (fst (main encode_batch repr_float repr_other nows fetched)))"
  shows "\<exists>exported_data rows.
           fetched = Fetched exported_data
         \<and> py_get exported_data ''knowledge_tiles'' (PList []) = Inr (PList rows)
         \<and> dc = 1
         \<and> length ts = length rows
         \<and> (\<forall>i<length rows.
               call_convert repr_float repr_other (nows i) (rows ! i) = Inr (ts ! i))"
proof (cases fetched)
  case RequestFailed
  with assms show ?thesis by (simp add: main_def)
next
  case InvalidJson
  with assms show ?thesis by (simp add: main_def)
next
  case JsonRaised
  with assms show ?thesis by (simp add: main_def)
next
  case (Fetched exported_data)
  show ?thesis
  proof (cases "py_get exported_data ''knowledge_tiles'' (PList [])")
    case (Inl e)
    with assms Fetched show ?thesis by (simp add: main_def)
  next
    case kt: (Inr kt)
    have "\<exists>items. py_iter kt = Inr items \<and> py_truthy kt
            \<and> convert_all repr_float repr_other nows 0 items = Inr ts \<and> dc = 1"
      using assms Fetched kt
      by (auto simp: main_def Let_def encode_calls_append split: sum.splits if_splits)
    then obtain items where
      it: "py_iter kt = Inr items" and tr: "py_truthy kt" and
      ca: "convert_all repr_float repr_other nows 0 items = Inr ts" and dc: "dc = 1"
      by blast
    have "\<exists>rows. kt = PList rows"
    proof (cases kt)
      case (PStr s)
      with it tr have "items \<noteq> []" "\<forall>v\<in>set items. \<exists>s. v = PStr s" by auto
      from convert_all_not_dict [OF this] ca show ?thesis by simp
    next
      case (PDict kvs)
      with it tr have "items \<noteq> []" "\<forall>v\<in>set items. \<exists>s. v = PStr s" by auto
      from convert_all_not_dict [OF this] ca show ?thesis by simp
    qed (use it in auto)
    then obtain rows where rows: "kt = PList rows" by blast
    with it have "items = rows" by simp
    with convert_all_Inr [OF ca] kt rows dc Fetched show ?thesis by simp
  qed
qed

text \<open>
  The encoder is reached: when the fetched \<^verbatim>\<open>knowledge_tiles\<close> is a non-empty array
  of rows the normalizer accepts and \<^verbatim>\<open>users\<close> has a length, \<^verbatim>\<open>encode_batch\<close> is
  called exactly once, with the normalized rows and the domain code 1.
\<close>

lemma convert_all_accepted:
  "list_all (accepted_row r) rows \<Longrightarrow> \<exists>ts. convert_all rf r nows i rows = Inr ts"
proof (induction rows arbitrary: i)
  case Nil
  then show ?case by simp
next
  case (Cons x xs)
  from Cons.prems accepted_row_converts [of r x rf "nows i"] obtain t where
    "call_convert rf r (nows i) x = Inr t" by auto
  moreover from Cons obtain ts where "convert_all rf r nows (Suc i) xs = Inr ts" by auto
  ultimately show ?case by simp
qed

lemma main_reaches_encoder:
  assumes "map_of kvs ''knowledge_tiles'' = Some (PList rows)" and "rows \<noteq> []"
    and "list_all (accepted_row repr_other) rows"
    and "py_len (dict_get (map_of kvs) ''users'' (PList [])) = Inr n_users"
  shows "\<exists>ts. convert_all repr_float repr_other nows 0 rows = Inr ts
           \<and> encode_calls
                (fst (main encode_batch repr_float repr_other nows (Fetched (PDict kvs))))
               = [(ts, 1)]"
proof -
  from convert_all_accepted [OF assms(3)] obtain ts where
    ts: "convert_all repr_float repr_other nows 0 rows = Inr ts" by blast
  have kt: "dict_get (map_of kvs) ''knowledge_tiles'' (PList []) = PList rows"
    using assms(1) by (simp add: dict_get_def)
  show ?thesis
    using assms(2,4) ts kt
    by (auto simp: main_def Let_def encode_calls_append split: sum.splits)
qed

text \<open>
  Witness for C7: the document \<^verbatim>\<open>{'knowledge_tiles': [{'id': 'k1'}, {}]}\<close>. The
  encoder is called once, with the two normalized rows in the fetched order.
\<close>

theorem main_encode_call_preserves_order_witness:
  "\<exists>ts. (ts, 1) \<in> set (encode_calls (fst (main (\<lambda>ts dc. Inr []) (\<lambda>w. []) (\<lambda>v. Inr [])
             (\<lambda>i. [])
             (Fetched (PDict [(''knowledge_tiles'',
                               PList [PDict [(''id'', PStr ''k1'')], PDict []])])))))
     \<and> length ts = 2
     \<and> call_convert (\<lambda>w. []) (\<lambda>v. Inr []) [] (PDict [(''id'', PStr ''k1'')]) = Inr (ts ! 0)
     \<and> call_convert (\<lambda>w. []) (\<lambda>v. Inr []) [] (PDict []) = Inr (ts ! 1)"
proof -
  let ?doc = "[(''knowledge_tiles'', PList [PDict [(''id'', PStr ''k1'')], PDict []])]"
  let ?run = "main (\<lambda>ts dc. Inr []) (\<lambda>w. []) (\<lambda>v. Inr []) (\<lambda>i. []) (Fetched (PDict ?doc))"
  have "\<exists>ts. convert_all (\<lambda>w. []) (\<lambda>v. Inr []) (\<lambda>i. []) 0
               [PDict [(''id'', PStr ''k1'')], PDict []] = Inr ts
           \<and> encode_calls (fst ?run) = [(ts, 1)]"
    by (rule main_reaches_encoder) (simp_all add: dict_get_def)
  then obtain ts where called: "(ts, 1) \<in> set (encode_calls (fst ?run))"
    by auto
  from main_encode_call_preserves_order [OF called] obtain rows where
    rows: "py_get (PDict ?doc) ''knowledge_tiles'' (PList []) = Inr (PList rows)"
    and len: "length ts = length rows"
    and nth: "\<forall>i<length rows.
                call_convert (\<lambda>w. []) (\<lambda>v. Inr []) [] (rows ! i) = Inr (ts ! i)"
    by auto
  from rows have r: "rows = [PDict [(''id'', PStr ''k1'')], PDict []]"
    by (simp add: dict_get_def)
  from spec [OF nth, of 0] spec [OF nth, of 1] r
  have "call_convert (\<lambda>w. []) (\<lambda>v. Inr []) [] (rows ! 0) = Inr (ts ! 0)"
    and "call_convert (\<lambda>w. []) (\<lambda>v. Inr []) [] (rows ! 1) = Inr (ts ! 1)"
    by simp_all
  with called len r show ?thesis
    by (intro exI [of _ ts]) simp
qed

text \<open>
  Claim C10, as amended. If the exported document has an empty or absent
  \<^verbatim>\<open>knowledge_tiles\<close> array, the run ends before line 77: the encoder is never
  constructed, \<^verbatim>\<open>encode_batch\<close> is never called, and no output file is opened or
  written. The run is the early return of line 75, after the message that there is
  nothing to export, when \<^verbatim>\<open>users\<close> is absent or has a length; otherwise
  \<^verbatim>\<open>len(users_d1)\<close> raises \<^verbatim>\<open>TypeError\<close> in line 71.
\<close>

theorem main_no_tiles_no_output:
  assumes "map_of kvs ''knowledge_tiles'' = None \<or> map_of kvs ''knowledge_tiles'' = Some (PList [])"
  shows "filter is_output_effect
           (fst (main encode_batch repr_float repr_other nows (Fetched (PDict kvs)))) = []
       \<and> (case py_len (dict_get (map_of kvs) ''users'' (PList [])) of
            Inr n_users \<Rightarrow>
              main encode_batch repr_float repr_other nows (Fetched (PDict kvs)) =
                ([Print MsgExporting, HttpGet (BACKEND_API_URL @ EXPORT_ENDPOINT),
                  Print (MsgCounts 0 n_users), Print MsgNoTiles], None)
          | Inl e \<Rightarrow>
              main encode_batch repr_float repr_other nows (Fetched (PDict kvs)) =
                ([Print MsgExporting, HttpGet (BACKEND_API_URL @ EXPORT_ENDPOINT)],
                 Some TypeError))"
proof -
  let ?users = "dict_get (map_of kvs) ''users'' (PList [])"
  from assms have kt: "dict_get (map_of kvs) ''knowledge_tiles'' (PList []) = PList []"
    by (auto simp: dict_get_def)
  from py_len_cases [of ?users] show ?thesis
  proof
    assume "\<exists>n. py_len ?users = Inr n"
    then obtain n where "py_len ?users = Inr n" ..
    with kt show ?thesis by (simp add: main_def)
  next
    assume "py_len ?users = Inl TypeError"
    with kt show ?thesis by (simp add: main_def)
  qed
qed

text \<open>
  Witness for C10: the document \<^verbatim>\<open>{'knowledge_tiles': [], 'users': [{}]}\<close>. The run
  prints the counts 0 and 1 and the message that there is nothing to export, and
  returns.
\<close>

theorem main_no_tiles_no_output_witness:
  "map_of [(''knowledge_tiles'', PList []), (''users'', PList [PDict []])] ''knowledge_tiles''
     = Some (PList [])
   \<and> main (\<lambda>ts dc. Inr []) (\<lambda>w. []) (\<lambda>v. Inr []) (\<lambda>i. [])
        (Fetched (PDict [(''knowledge_tiles'', PList []), (''users'', PList [PDict []])]))
      = ([Print MsgExporting, HttpGet (BACKEND_API_URL @ EXPORT_ENDPOINT),
          Print (MsgCounts 0 1), Print MsgNoTiles], None)"
  using main_no_tiles_no_output
    [of "[(''knowledge_tiles'', PList []), (''users'', PList [PDict []])]"
        "\<lambda>ts dc. Inr []" "\<lambda>w. []" "\<lambda>v. Inr []" "\<lambda>i. []"]
  by (simp add: dict_get_def)

text \<open>
  Counterexample to C10 as stated: the document
  \<^verbatim>\<open>{'knowledge_tiles': [], 'users': None}\<close> has an empty \<^verbatim>\<open>knowledge_tiles\<close>
  array, and the run does not return: it ends with \<^verbatim>\<open>TypeError\<close>, before the
  counts are printed.
\<close>

theorem main_no_tiles_counterexample:
  "map_of [(''knowledge_tiles'', PList []), (''users'', PNone)] ''knowledge_tiles'' = Some (PList [])
   \<and> main (\<lambda>ts dc. Inr []) (\<lambda>w. []) (\<lambda>v. Inr []) (\<lambda>i. [])
        (Fetched (PDict [(''knowledge_tiles'', PList []), (''users'', PNone)]))
      = ([Print MsgExporting, HttpGet (BACKEND_API_URL @ EXPORT_ENDPOINT)], Some TypeError)"
  by (simp add: main_def dict_get_def)

section \<open>Properties of the Batch Codec\<close>

subsection \<open>Integers and floats: decoding an encoding\<close>

lemma and_then_Inr [simp]: "and_then (Inr x) f = f x"
  by (simp add: and_then_def)

lemma and_then_Inl [simp]: "and_then (Inl e) f = Inl e"
  by (simp add: and_then_def)

lemma bit_byte_at:
  "bit (push_bit k (ucast (ucast (drop_bit k w) :: byte)) :: 'a::len word) n
     \<longleftrightarrow> k \<le> n \<and> n < k + 8 \<and> n < LENGTH('a) \<and> bit (w :: 'a word) n"
proof (cases "k \<le> n")
  case True
  then obtain m where "n = k + m" using le_Suc_ex by blast
  then show ?thesis by (auto simp: bit_simps)
next
  case False
  then show ?thesis by (simp add: bit_simps)
qed

lemma bit_byte_low:
  "bit (ucast (ucast w :: byte) :: 'a::len word) n
     \<longleftrightarrow> n < 8 \<and> n < LENGTH('a) \<and> bit (w :: 'a word) n"
  by (auto simp: bit_simps)

lemma u32_join_split:
  "ucast (ucast w :: byte) OR push_bit 8 (ucast (ucast (drop_bit 8 w) :: byte))
     OR push_bit 16 (ucast (ucast (drop_bit 16 w) :: byte))
     OR push_bit 24 (ucast (ucast (drop_bit 24 w) :: byte)) = (w :: u32)"
proof (rule bit_word_eqI)
  fix n assume "n < LENGTH(32)"
  then have "n < 32" by simp
  then show "bit (ucast (ucast w :: byte) OR push_bit 8 (ucast (ucast (drop_bit 8 w) :: byte))
     OR push_bit 16 (ucast (ucast (drop_bit 16 w) :: byte))
     OR push_bit 24 (ucast (ucast (drop_bit 24 w) :: byte)) :: u32) n = bit w n"
    unfolding bit_or_iff bit_byte_at bit_byte_low by auto
qed

lemma f64_join_split:
  "ucast (ucast w :: byte) OR push_bit 8 (ucast (ucast (drop_bit 8 w) :: byte))
     OR push_bit 16 (ucast (ucast (drop_bit 16 w) :: byte))
     OR push_bit 24 (ucast (ucast (drop_bit 24 w) :: byte))
     OR push_bit 32 (ucast (ucast (drop_bit 32 w) :: byte))
     OR push_bit 40 (ucast (ucast (drop_bit 40 w) :: byte))
     OR push_bit 48 (ucast (ucast (drop_bit 48 w) :: byte))
     OR push_bit 56 (ucast (ucast (drop_bit 56 w) :: byte)) = (w :: f64)"
proof (rule bit_word_eqI)
  fix n assume "n < LENGTH(64)"
  then have "n < 64" by simp
  then show "bit (ucast (ucast w :: byte) OR push_bit 8 (ucast (ucast (drop_bit 8 w) :: byte))
     OR push_bit 16 (ucast (ucast (drop_bit 16 w) :: byte))
     OR push_bit 24 (ucast (ucast (drop_bit 24 w) :: byte))
     OR push_bit 32 (ucast (ucast (drop_bit 32 w) :: byte))
     OR push_bit 40 (ucast (ucast (drop_bit 40 w) :: byte))
     OR push_bit 48 (ucast (ucast (drop_bit 48 w) :: byte))
     OR push_bit 56 (ucast (ucast (drop_bit 56 w) :: byte)) :: f64) n = bit w n"
    unfolding bit_or_iff bit_byte_at bit_byte_low by auto
qed

lemma decode_encode_u32: "decode_u32 (encode_u32 w @ rest) = Inr (w, rest)"
  by (simp add: encode_u32_def u32_join_split)

lemma decode_encode_f64: "decode_f64 (encode_f64 w @ rest) = Inr (w, rest)"
  by (simp add: encode_f64_def f64_join_split)

lemma unat_u32_of_nat: "n < 2 ^ 32 \<Longrightarrow> unat (of_nat n :: u32) = n"
  by (simp add: unat_of_nat)

lemma decode_encode_float3: "decode_float3 (encode_float3 v @ rest) = Inr (v, rest)"
  by (cases v) (simp add: encode_float3_def decode_float3_def decode_encode_f64)

subsection \<open>UTF-8: decoding an encoding\<close>

lemma unat_byte_of: "n < 256 \<Longrightarrow> unat (byte_of n) = n"
  by (simp add: byte_of_def unat_of_nat)

lemma decode_cp_2:
  assumes "0xC0 \<le> n0" "n0 < 0xE0" "0x80 \<le> n1" "n1 < 0xC0"
    and "0x80 \<le> (n0 - 0xC0) * 64 + (n1 - 0x80)"
  shows "utf8_decode_cp (byte_of n0 # byte_of n1 # rest)
           = Some ((n0 - 0xC0) * 64 + (n1 - 0x80), rest)"
proof -
  have "unat (byte_of n0) = n0" "unat (byte_of n1) = n1"
    using assms by (simp_all add: unat_byte_of)
  with assms show ?thesis by (simp add: continuation_def)
qed

lemma decode_cp_3:
  assumes "0xE0 \<le> n0" "n0 < 0xF0" "0x80 \<le> n1" "n1 < 0xC0" "0x80 \<le> n2" "n2 < 0xC0"
    and "0x800 \<le> (n0 - 0xE0) * 4096 + (n1 - 0x80) * 64 + (n2 - 0x80)"
    and "scalar_value ((n0 - 0xE0) * 4096 + (n1 - 0x80) * 64 + (n2 - 0x80))"
  shows "utf8_decode_cp (byte_of n0 # byte_of n1 # byte_of n2 # rest)
           = Some ((n0 - 0xE0) * 4096 + (n1 - 0x80) * 64 + (n2 - 0x80), rest)"
proof -
  have "unat (byte_of n0) = n0" "unat (byte_of n1) = n1" "unat (byte_of n2) = n2"
    using assms by (simp_all add: unat_byte_of)
  with assms show ?thesis by (simp add: continuation_def)
qed

lemma decode_cp_4:
  assumes "0xF0 \<le> n0" "n0 < 0xF8" "0x80 \<le> n1" "n1 < 0xC0" "0x80 \<le> n2" "n2 < 0xC0"
    "0x80 \<le> n3" "n3 < 0xC0"
    and "0x10000 \<le> (n0 - 0xF0) * 262144 + (n1 - 0x80) * 4096 + (n2 - 0x80) * 64 + (n3 - 0x80)"
    and "scalar_value ((n0 - 0xF0) * 262144 + (n1 - 0x80) * 4096 + (n2 - 0x80) * 64 + (n3 - 0x80))"
  shows "utf8_decode_cp (byte_of n0 # byte_of n1 # byte_of n2 # byte_of n3 # rest)
           = Some ((n0 - 0xF0) * 262144 + (n1 - 0x80) * 4096 + (n2 - 0x80) * 64 + (n3 - 0x80),
                   rest)"
proof -
  have "unat (byte_of n0) = n0" "unat (byte_of n1) = n1" "unat (byte_of n2) = n2"
    "unat (byte_of n3) = n3"
    using assms by (simp_all add: unat_byte_of)
  with assms show ?thesis by (simp add: continuation_def)
qed

lemma split4096: "(c::nat) div 4096 * 4096 + c div 64 mod 64 * 64 + c mod 64 = c"
proof -
  have "c div 64 div 64 = c div 4096" by (simp add: div_mult2_eq [symmetric])
  then have "c div 4096 * 64 + c div 64 mod 64 = c div 64"
    by (metis div_mult_mod_eq)
  then have "(c div 4096 * 64 + c div 64 mod 64) * 64 + c mod 64 = c"
    by simp
  then show ?thesis by (simp add: algebra_simps)
qed

lemma split262144:
  "(c::nat) div 262144 * 262144 + c div 4096 mod 64 * 4096 + c div 64 mod 64 * 64 + c mod 64 = c"
proof -
  have "c div 4096 div 64 = c div 262144" by (simp add: div_mult2_eq [symmetric])
  then have "c div 262144 * 64 + c div 4096 mod 64 = c div 4096"
    by (metis div_mult_mod_eq)
  then have "(c div 262144 * 64 + c div 4096 mod 64) * 4096 = c div 4096 * 4096"
    by (rule arg_cong)
  then have "c div 262144 * 262144 + c div 4096 mod 64 * 4096 = c div 4096 * 4096"
    by (simp add: add_mult_distrib)
  then show ?thesis using split4096 [of c] by simp
qed

lemma encode_cp_2:
  assumes "0x80 \<le> c" "c < 0x800"
  shows "utf8_decode_cp (utf8_encode_cp c @ rest) = Some (c, rest)"
proof -
  define n0 n1 where "n0 = 0xC0 + c div 64" and "n1 = 0x80 + c mod 64"
  have enc: "utf8_encode_cp c = [byte_of n0, byte_of n1]"
    using assms by (simp add: utf8_encode_cp_def n0_def n1_def)
  have val: "(n0 - 0xC0) * 64 + (n1 - 0x80) = c"
    by (simp add: n0_def n1_def)
  have "c div 64 < 32" using assms by (simp add: div_less_iff_less_mult)
  then have b0: "0xC0 \<le> n0" "n0 < 0xE0" by (simp_all add: n0_def)
  have b1: "0x80 \<le> n1" "n1 < 0xC0" by (simp_all add: n1_def)
  have "utf8_decode_cp (byte_of n0 # byte_of n1 # rest)
          = Some ((n0 - 0xC0) * 64 + (n1 - 0x80), rest)"
    using b0 b1 assms by (intro decode_cp_2) (simp_all only: val)
  then show ?thesis by (simp only: enc val append.simps)
qed

lemma encode_cp_3:
  assumes "0x800 \<le> c" "c < 0x10000" "scalar_value c"
  shows "utf8_decode_cp (utf8_encode_cp c @ rest) = Some (c, rest)"
proof -
  define n0 n1 n2 where "n0 = 0xE0 + c div 4096" and "n1 = 0x80 + c div 64 mod 64"
    and "n2 = 0x80 + c mod 64"
  have enc: "utf8_encode_cp c = [byte_of n0, byte_of n1, byte_of n2]"
    using assms by (simp add: utf8_encode_cp_def n0_def n1_def n2_def)
  have val: "(n0 - 0xE0) * 4096 + (n1 - 0x80) * 64 + (n2 - 0x80) = c"
    using split4096 [of c] by (simp add: n0_def n1_def n2_def)
  have "c div 4096 < 16" using assms by (simp add: div_less_iff_less_mult)
  then have b0: "0xE0 \<le> n0" "n0 < 0xF0" by (simp_all add: n0_def)
  have b1: "0x80 \<le> n1" "n1 < 0xC0" by (simp_all add: n1_def)
  have b2: "0x80 \<le> n2" "n2 < 0xC0" by (simp_all add: n2_def)
  have "utf8_decode_cp (byte_of n0 # byte_of n1 # byte_of n2 # rest)
          = Some ((n0 - 0xE0) * 4096 + (n1 - 0x80) * 64 + (n2 - 0x80), rest)"
    using b0 b1 b2 assms by (intro decode_cp_3) (simp_all only: val)
  then show ?thesis by (simp only: enc val append.simps)
qed

lemma encode_cp_4:
  assumes "0x10000 \<le> c" "c < 0x110000" "scalar_value c"
  shows "utf8_decode_cp (utf8_encode_cp c @ rest) = Some (c, rest)"
proof -
  define n0 n1 n2 n3 where "n0 = 0xF0 + c div 262144" and "n1 = 0x80 + c div 4096 mod 64"
    and "n2 = 0x80 + c div 64 mod 64" and "n3 = 0x80 + c mod 64"
  have enc: "utf8_encode_cp c = [byte_of n0, byte_of n1, byte_of n2, byte_of n3]"
    using assms by (simp add: utf8_encode_cp_def n0_def n1_def n2_def n3_def)
  have val: "(n0 - 0xF0) * 262144 + (n1 - 0x80) * 4096 + (n2 - 0x80) * 64 + (n3 - 0x80) = c"
    using split262144 [of c] by (simp add: n0_def n1_def n2_def n3_def)
  have "c div 262144 < 8" using assms by (simp add: div_less_iff_less_mult)
  then have b0: "0xF0 \<le> n0" "n0 < 0xF8" by (simp_all add: n0_def)
  have b1: "0x80 \<le> n1" "n1 < 0xC0" by (simp_all add: n1_def)
  have b2: "0x80 \<le> n2" "n2 < 0xC0" by (simp_all add: n2_def)
  have b3: "0x80 \<le> n3" "n3 < 0xC0" by (simp_all add: n3_def)
  have "utf8_decode_cp (byte_of n0 # byte_of n1 # byte_of n2 # byte_of n3 # rest)
          = Some ((n0 - 0xF0) * 262144 + (n1 - 0x80) * 4096 + (n2 - 0x80) * 64 + (n3 - 0x80),
                  rest)"
    using b0 b1 b2 b3 assms by (intro decode_cp_4) (simp_all only: val)
  then show ?thesis by (simp only: enc val append.simps)
qed

lemma decode_encode_cp:
  assumes "scalar_value c"
  shows "utf8_decode_cp (utf8_encode_cp c @ rest) = Some (c, rest)"
proof -
  consider (a) "c < 0x80" | (b) "0x80 \<le> c" "c < 0x800" | (c) "0x800 \<le> c" "c < 0x10000"
    | (d) "0x10000 \<le> c" "c < 0x110000"
    using assms unfolding scalar_value_def by linarith
  then show ?thesis
  proof cases
    case a
    then show ?thesis by (simp add: utf8_encode_cp_def unat_byte_of)
  next
    case b
    then show ?thesis by (rule encode_cp_2)
  next
    case c
    then show ?thesis using assms by (rule encode_cp_3)
  next
    case d
    then show ?thesis using assms by (rule encode_cp_4)
  qed
qed

lemma utf8_encode_cp_nonempty: "utf8_encode_cp c \<noteq> []"
  by (simp add: utf8_encode_cp_def)

lemma decode_encode_utf8:
  "\<forall>c\<in>set t. scalar_value c \<Longrightarrow> utf8_decode (utf8_encode t) = Some t"
proof (induction t)
  case Nil
  show ?case by (simp add: utf8_encode_def utf8_decode.simps)
next
  case (Cons c cs)
  have enc: "utf8_encode (c # cs) = utf8_encode_cp c @ utf8_encode cs"
    by (simp add: utf8_encode_def)
  have cp: "utf8_decode_cp (utf8_encode_cp c @ utf8_encode cs) = Some (c, utf8_encode cs)"
    using Cons.prems by (simp add: decode_encode_cp)
  have tl: "utf8_decode (utf8_encode cs) = Some cs"
    using Cons by simp
  show ?case
    unfolding enc
    by (subst utf8_decode.simps) (simp add: cp tl utf8_encode_cp_nonempty)
qed

text \<open>
  The encoder and the decoder on the letter A, e with acute, the euro sign and an
  emoji; an overlong form and a surrogate are refused.
\<close>

lemma utf8_encode_example:
  "utf8_encode [0x41, 0xE9, 0x20AC, 0x1F600]
     = [0x41, 0xC3, 0xA9, 0xE2, 0x82, 0xAC, 0xF0, 0x9F, 0x98, 0x80]"
  by (simp add: utf8_encode_def utf8_encode_cp_def byte_of_def)

lemma utf8_decode_example:
  "utf8_decode [0x41, 0xC3, 0xA9, 0xE2, 0x82, 0xAC, 0xF0, 0x9F, 0x98, 0x80]
     = Some [0x41, 0xE9, 0x20AC, 0x1F600]"
  by (simp add: utf8_decode.simps continuation_def scalar_value_def)

lemma utf8_decode_refuses:
  "utf8_decode [0xC0, 0x80] = None" "utf8_decode [0xED, 0xA0, 0x80] = None"
  by (simp_all add: utf8_decode.simps continuation_def scalar_value_def)

subsection \<open>Texts, tiles and batches: decoding an encoding\<close>

lemma decode_encode_text:
  assumes "wf_text t" "text_fits t"
  shows "decode_text (encode_text t @ rest) = Inr (t, rest)"
proof -
  let ?bs = "utf8_encode t"
  have n: "unat (of_nat (length ?bs) :: u32) = length ?bs"
    using assms(2) by (simp add: text_fits_def unat_u32_of_nat)
  have d: "utf8_decode ?bs = Some t"
    using assms(1) by (simp add: wf_text_def list_all_iff decode_encode_utf8)
  show ?thesis
    by (simp add: encode_text_def decode_text_def Let_def decode_encode_u32 n d)
qed

lemma decode_encode_texts:
  "list_all wf_text ids \<Longrightarrow> list_all text_fits ids \<Longrightarrow>
     decode_texts (length ids) (concat (map encode_text ids) @ rest) = Inr (ids, rest)"
  by (induction ids) (simp_all add: decode_encode_text)

lemma decode_encode_id_list:
  assumes "list_all wf_text ids" "list_all text_fits ids" "length ids < 2 ^ 32"
  shows "decode_id_list (encode_id_list ids @ rest) = Inr (ids, rest)"
  using assms
  by (simp add: encode_id_list_def decode_id_list_def decode_encode_u32 unat_u32_of_nat
      decode_encode_texts)

lemma decode_encode_tile:
  assumes "tile_wf t" "tile_fits t"
  shows "decode_tile (tile_bytes t @ rest) = Inr (t, rest)"
  using assms
  by (simp add: tile_wf_def tile_fits_def tile_bytes_def decode_tile_def decode_encode_text
      decode_encode_float3 decode_encode_f64 decode_encode_id_list)

lemma decode_encode_tiles:
  "list_all tile_wf ts \<Longrightarrow> list_all tile_fits ts \<Longrightarrow>
     decode_tiles (length ts) (concat (map tile_bytes ts) @ rest) = Inr (ts, rest)"
  by (induction ts) (simp_all add: decode_encode_tile)

lemma first_invalid_None:
  "first_invalid i ts = None \<longleftrightarrow> list_all tile_valid ts"
  by (induction ts arbitrary: i) (auto simp: tile_valid_def split: option.splits)

lemma example_tile_valid: "tile_valid example_tile"
  by (simp add: tile_valid_def validate_tile_def example_tile_def in_unit_interval_def
      text_of_def)

lemma example_tile_wf: "tile_wf example_tile"
  by (simp add: tile_wf_def example_tile_def wf_text_def text_of_def scalar_value_def)

lemma example_tile_fits: "tile_fits example_tile"
  by (simp add: tile_fits_def example_tile_def text_fits_def text_of_def utf8_encode_def
      utf8_encode_cp_def)

text \<open>
  The bytes of the example batch, as the layout of section 6 of the spec gives them:
  the header, then the ten fields of the tile.
\<close>

lemma encode_example_bytes:
  "encode [example_tile] 1 =
     Inr [0x49, 0x41, 0x54, 0x48, 1, 1, 1, 0, 0, 0,
          2, 0, 0, 0, 0x6B, 0x31,
          4, 0, 0, 0, 0x54, 0x65, 0x73, 0x74,
          19, 0, 0, 0, 0x32, 0x30, 0x32, 0x34, 0x2D, 0x30, 0x31, 0x2D, 0x30, 0x31, 0x54,
                       0x30, 0x30, 0x3A, 0x30, 0x30, 0x3A, 0x30, 0x30,
          0, 0, 0, 0, 0, 0, 0xF0, 0x3F, 0, 0, 0, 0, 0, 0, 0, 0x40, 0, 0, 0, 0, 0, 0, 8, 0x40,
          0, 0, 0, 0, 0, 0, 0, 0, 0, 0, 0, 0, 0, 0, 0, 0, 0, 0, 0, 0, 0, 0, 0, 0,
          0, 0, 0, 0,
          6, 0, 0, 0, 0x41, 0x6E, 0x73, 0x77, 0x65, 0x72,
          14, 0, 0, 0, 0x70, 0x65, 0x6E, 0x64, 0x69, 0x6E, 0x67, 0x5F, 0x72, 0x65, 0x76,
                       0x69, 0x65, 0x77,
          0, 0, 0, 0, 0, 0, 0xE0, 0x3F,
          0, 0, 0, 0]"
  by (simp add: encode_def validate_tile_def in_unit_interval_def example_tile_def text_of_def
      MAGIC_def FORMAT_VERSION_def tile_bytes_def encode_text_def utf8_encode_def
      utf8_encode_cp_def byte_of_def encode_u32_def encode_float3_def encode_f64_def
      encode_id_list_def)

text \<open>
  Claim C1, as amended. For every valid Tile Batch whose tile count, reviewer counts
  and UTF-8 text lengths are all below \<open>2 ^ 32\<close> (and whose texts are sequences of
  Unicode scalar values), decoding the bytes produced by encoding the batch yields the
  batch back field for field: the domain code, the format version the encoder writes,
  and the tiles in their order, with the order of the reviewers and the bit pattern of
  every floating-point coordinate.
\<close>

theorem roundtrip_decode_encode:
  assumes "list_all tile_valid tiles" and "list_all tile_wf tiles"
    and "list_all tile_fits tiles" and "length tiles < 2 ^ 32"
  shows "roundtrip tiles domain_code = Inr (domain_code, FORMAT_VERSION, tiles)"
proof -
  have enc: "encode tiles domain_code =
      Inr (MAGIC @ [FORMAT_VERSION, domain_code] @ encode_u32 (of_nat (length tiles))
           @ concat (map tile_bytes tiles))"
    using assms(1) by (simp add: encode_def first_invalid_None [THEN iffD2])
  have body: "decode_tiles (length tiles) (concat (map tile_bytes tiles)) = Inr (tiles, [])"
    using decode_encode_tiles [OF assms(2,3), of "[]"] by simp
  show ?thesis
    using assms(4)
    by (simp add: roundtrip_def enc decode_def MAGIC_def decode_encode_u32 unat_u32_of_nat body)
qed

text \<open>
  Witness for C1: the single-tile batch of the example of section 8 of the spec, with
  domain code 1.
\<close>

theorem roundtrip_decode_encode_witness:
  "list_all tile_valid [example_tile] \<and> list_all tile_wf [example_tile]
   \<and> list_all tile_fits [example_tile] \<and> length [example_tile] < 2 ^ 32
   \<and> roundtrip [example_tile] 1 = Inr (1, FORMAT_VERSION, [example_tile])"
  using roundtrip_decode_encode [of "[example_tile]" 1]
  by (simp add: example_tile_valid example_tile_wf example_tile_fits)

lemma first_invalid_replicate:
  "validate_tile t = None \<Longrightarrow> first_invalid i (replicate n t) = None"
  by (induction n arbitrary: i) simp_all

lemma tile_bytes_nonempty: "tile_bytes t \<noteq> []"
  by (simp add: tile_bytes_def encode_text_def encode_u32_def Let_def)

lemma list_all_replicate_I: "P x \<Longrightarrow> list_all P (replicate n x)"
  by (simp add: list_all_iff)

text \<open>
  Counterexample to C1 as stated: a batch of \<open>2 ^ 32\<close> copies of the example tile.
  Every tile is valid and every text is well formed and short, but the header has 4
  bytes for the tile count: the encoder writes the count modulo \<open>2 ^ 32\<close>, which is
  0, and the decoder, having read no tile, finds the tile blocks as trailing data.
\<close>

theorem roundtrip_counterexample:
  "list_all tile_valid (replicate (2 ^ 32) example_tile)
   \<and> list_all tile_wf (replicate (2 ^ 32) example_tile)
   \<and> list_all tile_fits (replicate (2 ^ 32) example_tile)
   \<and> roundtrip (replicate (2 ^ 32) example_tile) 1 = Inl TrailingData"
proof -
  let ?ts = "replicate (2 ^ 32) example_tile"
  have len: "(of_nat (length ?ts) :: u32) = 0"
    by simp
  have "first_invalid 0 ?ts = None"
    using example_tile_valid by (intro first_invalid_replicate) (simp add: tile_valid_def)
  then have enc: "encode ?ts 1 =
      Inr (MAGIC @ [FORMAT_VERSION, 1] @ encode_u32 0 @ concat (map tile_bytes ?ts))"
    unfolding encode_def len by simp
  have "?ts = example_tile # replicate (2 ^ 32 - 1) example_tile"
    by (simp flip: replicate_Suc)
  then have body: "concat (map tile_bytes ?ts) \<noteq> []"
    using tile_bytes_nonempty [of example_tile]
    by (metis concat.simps(2) list.simps(9) append_is_Nil_conv)
  have "roundtrip ?ts 1 = Inl TrailingData"
    unfolding roundtrip_def enc
    using body by (simp add: decode_def MAGIC_def decode_encode_u32 FORMAT_VERSION_def)
  then show ?thesis
    by (simp add: list_all_replicate_I example_tile_valid example_tile_wf example_tile_fits)
qed

subsection \<open>The validation gate\<close>

lemma first_invalid_Some:
  "first_invalid i ts = Some (j, r) \<Longrightarrow>
     i \<le> j \<and> j - i < length ts \<and> validate_tile (ts ! (j - i)) = Some r
     \<and> (\<forall>m<j - i. validate_tile (ts ! m) = None)"
proof (induction ts arbitrary: i)
  case Nil
  then show ?case by simp
next
  case (Cons t ts)
  show ?case
  proof (cases "validate_tile t")
    case None
    with Cons.prems have rec: "first_invalid (Suc i) ts = Some (j, r)" by simp
    from Cons.IH [OF rec] have ih: "Suc i \<le> j" "j - Suc i < length ts"
      "validate_tile (ts ! (j - Suc i)) = Some r"
      "\<And>m. m < j - Suc i \<Longrightarrow> validate_tile (ts ! m) = None"
      by auto
    from ih(1) have ji: "j - i = Suc (j - Suc i)" by simp
    show ?thesis
    proof (intro conjI allI impI)
      show "i \<le> j" using ih(1) by simp
      show "j - i < length (t # ts)" using ih(2) ji by simp
      show "validate_tile ((t # ts) ! (j - i)) = Some r" using ih(3) ji by simp
    next
      fix m assume "m < j - i"
      then show "validate_tile ((t # ts) ! m) = None"
        using None ih(4) ji by (cases m) auto
    qed
  next
    case (Some r')
    with Cons.prems show ?thesis by simp
  qed
qed

lemma first_invalid_exists:
  "k < length ts \<Longrightarrow> validate_tile (ts ! k) \<noteq> None \<Longrightarrow>
     \<exists>j r. first_invalid i ts = Some (j, r)"
proof (induction ts arbitrary: i k)
  case Nil
  then show ?case by simp
next
  case (Cons t ts)
  then show ?case
    by (cases k) (auto split: option.splits)
qed

text \<open>
  Claim C3, as amended. Encoding a batch in which the tile at index \<open>k\<close> has
  \<^verbatim>\<open>initial_certainty\<close> outside [0.0, 1.0] fails with a \<^verbatim>\<open>ValidationError\<close> and
  produces no byte at all (the result is the error alone). The error carries the index
  of the first invalid tile of the batch and that tile's reason: it is \<open>k\<close>, with
  the certainty as the reason, whenever every tile before \<open>k\<close> is valid.
\<close>

theorem encode_validation_gate:
  assumes "k < length tiles" and "\<not> in_unit_interval (initial_certainty (tiles ! k))"
  shows "\<exists>j r. encode tiles domain_code = Inl (ValidationError j r)
           \<and> j \<le> k
           \<and> validate_tile (tiles ! j) = Some r
           \<and> (\<forall>i<j. tile_valid (tiles ! i))
           \<and> (list_all tile_valid (take k tiles) \<longrightarrow> j = k \<and> r = CertaintyOutOfRange)"
proof -
  have bad: "validate_tile (tiles ! k) = Some CertaintyOutOfRange"
    using assms(2) by (simp add: validate_tile_def)
  with first_invalid_exists [OF assms(1), of 0] obtain j r where
    fi: "first_invalid 0 tiles = Some (j, r)" by auto
  from first_invalid_Some [OF fi] have
    j: "j < length tiles" and vj: "validate_tile (tiles ! j) = Some r"
    and before: "\<And>m. m < j \<Longrightarrow> validate_tile (tiles ! m) = None"
    by auto
  have jk: "j \<le> k"
  proof (rule ccontr)
    assume "\<not> j \<le> k"
    then have "k < j" by simp
    from before [OF this] bad show False by simp
  qed
  have last: "j = k \<and> r = CertaintyOutOfRange" if all: "list_all tile_valid (take k tiles)"
  proof -
    have "j = k"
    proof (rule ccontr)
      assume "j \<noteq> k"
      with jk have lt: "j < k" by simp
      with assms(1) have "tiles ! j \<in> set (take k tiles)"
        by (metis in_set_conv_nth length_take min.absorb2 nth_take less_imp_le_nat)
      with all have "validate_tile (tiles ! j) = None"
        by (simp add: list_all_iff tile_valid_def)
      with vj show False by simp
    qed
    with vj bad show ?thesis by simp
  qed
  show ?thesis
    using fi jk vj before last
    by (intro exI [of _ j] exI [of _ r]) (simp add: encode_def tile_valid_def)
qed

text \<open>
  Witness for C3: the example tile followed by a copy of it with certainty 1.5
  (0x3FF8000000000000). The encode fails with the index 1.
\<close>

theorem encode_validation_gate_witness:
  "(1::nat) < length [example_tile, example_tile\<lparr>initial_certainty := 0x3FF8000000000000\<rparr>]
   \<and> \<not> in_unit_interval (initial_certainty
         ([example_tile, example_tile\<lparr>initial_certainty := 0x3FF8000000000000\<rparr>] ! 1))
   \<and> encode [example_tile, example_tile\<lparr>initial_certainty := 0x3FF8000000000000\<rparr>] 1
       = Inl (ValidationError 1 CertaintyOutOfRange)"
  using encode_validation_gate
    [of 1 "[example_tile, example_tile\<lparr>initial_certainty := 0x3FF8000000000000\<rparr>]" 1]
  by (simp add: encode_def validate_tile_def in_unit_interval_def example_tile_def text_of_def)

text \<open>
  Counterexample to C3 as stated: a copy of the example tile with an empty topic,
  followed by a copy with certainty 1.5. The tile at index 1 is the only one with a
  certainty outside [0.0, 1.0], and the error carries the index 0, for the empty topic.
\<close>

theorem encode_validation_gate_counterexample:
  "\<not> in_unit_interval (initial_certainty
         ([example_tile\<lparr>topic := []\<rparr>,
           example_tile\<lparr>initial_certainty := 0x3FF8000000000000\<rparr>] ! 1))
   \<and> in_unit_interval (initial_certainty
         ([example_tile\<lparr>topic := []\<rparr>,
           example_tile\<lparr>initial_certainty := 0x3FF8000000000000\<rparr>] ! 0))
   \<and> encode [example_tile\<lparr>topic := []\<rparr>,
             example_tile\<lparr>initial_certainty := 0x3FF8000000000000\<rparr>] 1
       = Inl (ValidationError 0 EmptyTopic)"
  by (simp add: encode_def validate_tile_def in_unit_interval_def example_tile_def text_of_def)

end
